theory Spec2Isabelle
  imports Complex_Main "HOL-Library.Multiset"
begin

section \<open>Python values, errors and arithmetic\<close>

text \<open>
  The program is Python. Its unbounded integers are \<open>int\<close>. A float is a binary64
  number; the model holds its exact value, a rational (\<open>rat\<close>), and rounds the
  result of every float operation to the nearest number with a significand of 53
  bits, ties to the even significand, as IEEE 754 arithmetic does. The exponent is
  not bounded: the model has no infinities, no overflow error and no subnormal numbers
  (they need values above \<open>1.8e308\<close> or below \<open>2.3e-308\<close>). Comparisons are
  exact, as they are in Python between floats and between a float and an int.

  Every exception the modelled code can raise is a value of \<open>error\<close>;
  \<open>SystemExit\<close> carries the message given to \<open>sys.exit\<close>.
\<close>

datatype error = ZeroDivisionError | TypeError | ValueError | IndexError | SystemExit string

text \<open>\<open>n.bit_length()\<close> for \<open>n \<ge> 0\<close>.\<close>

function bit_length :: "int \<Rightarrow> int" where
  "bit_length n = (if n \<le> 0 then 0 else 1 + bit_length (n div 2))"
  by pat_completeness auto
termination
  by (relation "measure nat") auto

declare bit_length.simps [simp del]

text \<open>
  For \<open>x > 0\<close>, the exponent \<open>e\<close> with \<open>2 ^ e \<le> x < 2 ^ (e + 1)\<close>, and the
  powers of two with an integer exponent.
\<close>

definition floor_log2 :: "rat \<Rightarrow> int" where
  "floor_log2 x =
     (if 1 \<le> x then bit_length \<lfloor>x\<rfloor> - 1 else - bit_length (\<lceil>1 / x\<rceil> - 1))"

definition pow2 :: "int \<Rightarrow> rat" where
  "pow2 k = (if 0 \<le> k then 2 ^ nat k else 1 / 2 ^ nat (- k))"

text \<open>Rounding to the nearest integer, ties to the even one.\<close>

definition round_half_even :: "rat \<Rightarrow> int" where
  "round_half_even y =
     (let f = \<lfloor>y\<rfloor>; r = y - of_int f
      in if r < 1 / 2 then f else if 1 / 2 < r then f + 1 else if even f then f else f + 1)"

text \<open>
  The binary64 number nearest to \<open>x\<close>: the significand \<open>\<bar>x\<bar> / 2 ^ e\<close>, scaled into
  \<open>[2 ^ 52, 2 ^ 53)\<close>, is rounded to an integer.
\<close>

definition binary64 :: "rat \<Rightarrow> rat" where
  "binary64 x =
     (if x = 0 then 0
      else let e = floor_log2 \<bar>x\<bar> - 52
           in sgn x * of_int (round_half_even (\<bar>x\<bar> / pow2 e)) * pow2 e)"

text \<open>
  \<open>a / b\<close> on ints is the correctly rounded quotient, or \<open>ZeroDivisionError\<close>.
  \<open>x * y\<close> converts an int operand to a float and rounds the product.
  \<open>round(x, n)\<close> rounds the exact value of the float \<open>x\<close> to \<open>n\<close> decimal places,
  ties to even, and returns the float nearest to that decimal number.
\<close>

definition py_truediv :: "int \<Rightarrow> int \<Rightarrow> error + rat" where
  "py_truediv a b =
     (if b = 0 then Inl ZeroDivisionError else Inr (binary64 (of_int a / of_int b)))"

definition py_mul :: "rat \<Rightarrow> rat \<Rightarrow> rat" where
  "py_mul x y = binary64 (binary64 x * binary64 y)"

definition py_round :: "rat \<Rightarrow> nat \<Rightarrow> rat" where
  "py_round x ndigits =
     binary64 (of_int (round_half_even (x * 10 ^ ndigits)) / 10 ^ ndigits)"

text \<open>
  \<open>sorted(xs, key=k, reverse=True)\<close>: CPython reverses the list, sorts it stably in
  ascending key order and reverses the result, so that elements with equal keys keep
  their original order.
\<close>

definition py_sorted_reverse :: "('a \<Rightarrow> 'k::linorder) \<Rightarrow> 'a list \<Rightarrow> 'a list" where
  "py_sorted_reverse k xs = rev (sort_key k (rev xs))"

text \<open>\<open>max(xs, key=k)\<close> on a non-empty list: the first element whose key is maximal.\<close>

fun py_max_from :: "('a \<Rightarrow> 'k::linorder) \<Rightarrow> 'a \<Rightarrow> 'a list \<Rightarrow> 'a" where
  "py_max_from k best [] = best"
| "py_max_from k best (x # xs) = py_max_from k (if k x > k best then x else best) xs"

section \<open>Data model (src/common/classes.py)\<close>

record Predecessor =
  caller_function_name :: string
  samples_to_target :: int
  weight_to_target :: rat

record Node =
  function_name :: string
  size_bytes :: int
  global_samples :: int
  global_weight :: rat
  predecessors :: "Predecessor list"

text \<open>\<open>Node.__eq__\<close>: two nodes are equal when their function names are.\<close>

definition node_eq :: "Node \<Rightarrow> Node \<Rightarrow> bool" where
  "node_eq a b = (function_name a = function_name b)"

definition get_biggest_predecessor :: "Node \<Rightarrow> Predecessor option" where
  "get_biggest_predecessor node =
     (case predecessors node of
        [] \<Rightarrow> None
      | p # ps \<Rightarrow> Some (py_max_from samples_to_target p ps))"

section \<open>Cluster (src/C3Algorithm.py)\<close>

record Cluster =
  page_size :: int
  k_caller_degrade_factor :: rat
  nodes :: "Node list"
  total_time :: int
  total_size :: int
  density :: rat

text \<open>
  \<open>_update_density\<close> recomputes \<open>total_time\<close> and \<open>total_size\<close> from the member nodes
  and divides them; the division raises \<open>ZeroDivisionError\<close> on a total size of zero.
\<close>

definition update_time :: "Cluster \<Rightarrow> Cluster" where
  "update_time c = c\<lparr>total_time := sum_list (map global_samples (nodes c))\<rparr>"

definition update_size :: "Cluster \<Rightarrow> Cluster" where
  "update_size c = c\<lparr>total_size := sum_list (map size_bytes (nodes c))\<rparr>"

definition update_density :: "Cluster \<Rightarrow> error + Cluster" where
  "update_density c =
     (let c1 = update_size (update_time c)
      in case py_truediv (total_time c1) (total_size c1) of
           Inl e \<Rightarrow> Inl e
         | Inr q \<Rightarrow> Inr (c1\<lparr>density := py_round q 4\<rparr>))"

definition Cluster_init :: "Node \<Rightarrow> int \<Rightarrow> error + Cluster" where
  "Cluster_init node pagesize =
     update_density \<lparr>page_size = pagesize, k_caller_degrade_factor = 8, nodes = [node],
                     total_time = 0, total_size = 0, density = 0\<rparr>"

text \<open>
  \<open>check_cluster_merge\<close> returns \<open>True\<close> when the merge is rejected and leaves the
  cluster as it is; otherwise it appends the other cluster's nodes to its own, recomputes
  the totals and returns \<open>False\<close>. The model returns the flag with the cluster
  \<open>self\<close> afterwards; \<open>other_cluster\<close> is only read.
\<close>

definition check_cluster_merge :: "Cluster \<Rightarrow> Cluster \<Rightarrow> error + (bool \<times> Cluster)" where
  "check_cluster_merge self other_cluster =
     (if total_size self + total_size other_cluster > page_size self then Inr (True, self)
      else case py_truediv (total_time self + total_time other_cluster)
                           (total_size self + total_size other_cluster) of
             Inl e \<Rightarrow> Inl e
           | Inr new_density \<Rightarrow>
               if density self > py_mul new_density (k_caller_degrade_factor self)
               then Inr (True, self)
               else (case update_density (self\<lparr>nodes := nodes self @ nodes other_cluster\<rparr>) of
                       Inl e \<Rightarrow> Inl e
                     | Inr merged \<Rightarrow> Inr (False, merged)))"

section \<open>HFSorter (src/C3Algorithm.py)\<close>

text \<open>
  The command-line arguments the sorter reads: \<open>--page-size\<close>, \<open>--min-probability\<close>
  (\<open>None\<close> unless given) and the log level (\<open>None\<close>, \<open>logging.INFO\<close> or
  \<open>logging.DEBUG\<close>).
\<close>

record Args =
  pagesize :: int
  k_min_prob :: "rat option"
  loglevel :: "int option"

definition logging_INFO :: int where
  "logging_INFO = 20"

definition logging_DEBUG :: int where
  "logging_DEBUG = 10"

text \<open>
  The sorter's attributes. \<open>hf_k_caller_degrade_factor\<close> is the attribute
  \<open>k_caller_degrade_factor\<close> that \<open>HFSorter.__init__\<close> sets on the sorter itself when
  \<open>--min-probability\<close> is given (\<open>None\<close>: the attribute does not exist).
\<close>

record HFSorter =
  node_list :: "Node list"
  cluster_list :: "Cluster list"
  hf_k_caller_degrade_factor :: "rat option"
  hf_loglevel :: "int option"

definition K_MIN_ARC_PROBABILITY :: rat where
  "K_MIN_ARC_PROBABILITY = binary64 (1 / 10)"

fun init_clusters :: "int \<Rightarrow> Node list \<Rightarrow> error + Cluster list" where
  "init_clusters pgsize [] = Inr []"
| "init_clusters pgsize (node # rest) =
     (case Cluster_init node pgsize of
        Inl e \<Rightarrow> Inl e
      | Inr c \<Rightarrow> (case init_clusters pgsize rest of
                   Inl e \<Rightarrow> Inl e
                 | Inr cs \<Rightarrow> Inr (c # cs)))"

definition HFSorter_init :: "Args \<Rightarrow> Node list \<Rightarrow> error + HFSorter" where
  "HFSorter_init args nl =
     (case init_clusters (pagesize args) nl of
        Inl e \<Rightarrow> Inl e
      | Inr cs \<Rightarrow>
          Inr \<lparr>node_list = py_sorted_reverse global_samples nl,
               cluster_list = cs,
               hf_k_caller_degrade_factor = k_min_prob args,
               hf_loglevel = loglevel args\<rparr>)"

text \<open>\<open>del xs[i]\<close> for an index in range.\<close>

definition delete_at :: "nat \<Rightarrow> 'a list \<Rightarrow> 'a list" where
  "delete_at i xs = take i xs @ drop (Suc i) xs"

definition merge_clusters :: "HFSorter \<Rightarrow> nat \<Rightarrow> nat \<Rightarrow> error + HFSorter" where
  "merge_clusters self source_index target_index =
     (if length (cluster_list self) \<le> source_index \<or> length (cluster_list self) \<le> target_index
      then Inl IndexError
      else
        let source_cluster = cluster_list self ! source_index;
            target_cluster = cluster_list self ! target_index
        in case check_cluster_merge source_cluster target_cluster of
             Inl e \<Rightarrow> Inl e
           | Inr (rejected, source_cluster') \<Rightarrow>
               if rejected then Inr self
               else Inr (self\<lparr>cluster_list :=
                           delete_at target_index
                             ((cluster_list self)[source_index := source_cluster'])\<rparr>))"

definition get_most_likely_predecessor :: "HFSorter \<Rightarrow> Node \<Rightarrow> Node option" where
  "get_most_likely_predecessor self target_node =
     (case get_biggest_predecessor target_node of
        None \<Rightarrow> None
      | Some predecessor \<Rightarrow>
          if weight_to_target predecessor < K_MIN_ARC_PROBABILITY then None
          else find (\<lambda>node. function_name node = caller_function_name predecessor)
                 (node_list self))"

fun find_cluster_index :: "Cluster list \<Rightarrow> Node \<Rightarrow> nat option" where
  "find_cluster_index [] node = None"
| "find_cluster_index (cluster # rest) node =
     (if list_ex (\<lambda>cluster_node. node_eq cluster_node node) (nodes cluster) then Some 0
      else map_option Suc (find_cluster_index rest node))"

definition find_cluster :: "HFSorter \<Rightarrow> Node \<Rightarrow> error + nat" where
  "find_cluster self node =
     (case find_cluster_index (cluster_list self) node of
        Some index \<Rightarrow> Inr index
      | None \<Rightarrow>
          Inl (SystemExit (''ERROR Cluster index for node '' @ function_name node @
                           '' could not be found'')))"

definition sort_functions_in_clusters :: "HFSorter \<Rightarrow> string list" where
  "sort_functions_in_clusters self =
     (let debug = (hf_loglevel self = Some logging_DEBUG);
          symbols = [''+'', ''#'']
      in concat
           (map (\<lambda>(index, cluster).
                   map (\<lambda>node. if debug
                                then symbols ! (index mod 2) @ ''  '' @ function_name node
                                else function_name node)
                     (nodes cluster))
              (enumerate 0 (py_sorted_reverse density (cluster_list self)))))"

text \<open>
  The body of the loop of \<open>sort\<close>, on the sorter and the counter \<open>index\<close> of nodes
  without a most likely predecessor.
\<close>

definition sort_step :: "HFSorter \<times> nat \<Rightarrow> Node \<Rightarrow> error + HFSorter \<times> nat" where
  "sort_step st node =
     (case st of (self, index) \<Rightarrow>
        (case get_most_likely_predecessor self node of
           None \<Rightarrow> Inr (self, index + 1)
         | Some predecessor_node \<Rightarrow>
             (case find_cluster self node of
                Inl e \<Rightarrow> Inl e
              | Inr source_cluster_index \<Rightarrow>
                  (case find_cluster self predecessor_node of
                     Inl e \<Rightarrow> Inl e
                   | Inr target_cluster_index \<Rightarrow>
                       if source_cluster_index = target_cluster_index then Inr (self, index)
                       else (case merge_clusters self source_cluster_index
                                     target_cluster_index of
                               Inl e \<Rightarrow> Inl e
                             | Inr self' \<Rightarrow> Inr (self', index))))))"

fun sort_loop :: "HFSorter \<times> nat \<Rightarrow> Node list \<Rightarrow> error + HFSorter \<times> nat" where
  "sort_loop st [] = Inr st"
| "sort_loop st (node # rest) =
     (case sort_step st node of
        Inl e \<Rightarrow> Inl e
      | Inr st' \<Rightarrow> sort_loop st' rest)"

text \<open>
  \<open>sort\<close>: the loop over the nodes in decreasing order of samples, the statistics
  printed at log level INFO or DEBUG (of which the model keeps the division by the
  number of nodes, which can raise), and the names in cluster order.
\<close>

definition HFSorter_sort :: "HFSorter \<Rightarrow> error + string list" where
  "HFSorter_sort self =
     (case sort_loop (self, 0) (py_sorted_reverse global_samples (node_list self)) of
        Inl e \<Rightarrow> Inl e
      | Inr (self', index) \<Rightarrow>
          if hf_loglevel self' \<in> {Some logging_INFO, Some logging_DEBUG}
          then (case py_truediv (int index) (int (length (node_list self'))) of
                  Inl e \<Rightarrow> Inl e
                | Inr ratio \<Rightarrow> Inr (sort_functions_in_clusters self'))
          else Inr (sort_functions_in_clusters self'))"

text \<open>\<open>HFSorter(args, node_list).sort()\<close>, as \<open>start\<close> in hfsort.py runs it.\<close>

definition sort_nodes :: "Args \<Rightarrow> Node list \<Rightarrow> error + string list" where
  "sort_nodes args nl =
     (case HFSorter_init args nl of
        Inl e \<Rightarrow> Inl e
      | Inr self \<Rightarrow> HFSorter_sort self)"

section \<open>Graph builder (hfsort.py)\<close>

text \<open>
  A row of the chosen report section is a dict; the model keeps the fields the graph
  builder reads. The report must provide \<open>samples\<close>, \<open>source_symbol\<close> and
  \<open>target_symbol\<close>; the report parser gives a symbol name as a string and a count as an
  int. \<open>symbol_size\<close> is optional (\<open>None\<close>: the key is absent from the dict); when
  present the parser has left it an int (all digits, or 0 for \<open>unknown\<close>) or a string.
\<close>

datatype pyval = PInt int | PStr string

record Row =
  samples :: int
  source_symbol :: string
  target_symbol :: string
  symbol_size :: "pyval option"

text \<open>
  \<open>int(s)\<close> on a string, base 10: surrounding ASCII whitespace is dropped, then an
  optional sign and decimal digits, with single underscores allowed between digits.
\<close>

definition is_space :: "char \<Rightarrow> bool" where
  "is_space c = (c \<in> set [CHR '' '', CHR 0x09, CHR 0x0A, CHR 0x0B, CHR 0x0C, CHR 0x0D])"

definition is_digit :: "char \<Rightarrow> bool" where
  "is_digit c = (c \<in> set ''0123456789'')"

definition strip :: "string \<Rightarrow> string" where
  "strip s = rev (dropWhile is_space (rev (dropWhile is_space s)))"

fun parse_digits :: "int \<Rightarrow> bool \<Rightarrow> string \<Rightarrow> int option" where
  "parse_digits acc after_digit [] = (if after_digit then Some acc else None)"
| "parse_digits acc after_digit (c # cs) =
     (if is_digit c then parse_digits (acc * 10 + (int (of_char c) - 48)) True cs
      else if c = CHR ''_'' \<and> after_digit then parse_digits acc False cs
      else None)"

definition int_of_str :: "string \<Rightarrow> int option" where
  "int_of_str s =
     (case strip s of
        [] \<Rightarrow> None
      | c # cs \<Rightarrow>
          if c = CHR ''-'' then map_option uminus (parse_digits 0 False cs)
          else if c = CHR ''+'' then parse_digits 0 False cs
          else parse_digits 0 False (c # cs))"

definition py_int :: "pyval option \<Rightarrow> error + int" where
  "py_int v =
     (case v of
        None \<Rightarrow> Inl TypeError
      | Some (PInt n) \<Rightarrow> Inr n
      | Some (PStr s) \<Rightarrow> (case int_of_str s of None \<Rightarrow> Inl ValueError | Some n \<Rightarrow> Inr n))"

text \<open>
  \<open>is_hex\<close> (src/common/functions.py): a match of \<open>^0x[0-9a-fA-F]+$\<close>, where
  \<open>$\<close> also matches before one final newline.
\<close>

definition is_hex :: "string \<Rightarrow> bool" where
  "is_hex string =
     (case string of
        c0 # cx # rest \<Rightarrow>
          c0 = CHR ''0'' \<and> cx = CHR ''x'' \<and>
          (let body = (if rest \<noteq> [] \<and> last rest = CHR 0x0A then butlast rest else rest)
           in body \<noteq> [] \<and> list_all (\<lambda>c. c \<in> set ''0123456789abcdefABCDEF'') body)
      | _ \<Rightarrow> False)"

text \<open>
  \<open>get_symbol_size\<close>. The size table is a dict or \<open>None\<close>, here an association list
  read with \<open>map_of\<close>; \<open>not symbol_size_list\<close> holds when it is \<open>None\<close> or empty. The counter of symbols
  missing from the table comes in with the debug flag and goes out with the size; it
  is \<open>None\<close> once a call has returned \<open>(None, None)\<close>, and adding 1 to \<open>None\<close> raises.
\<close>

definition increment :: "int option \<Rightarrow> error + int option" where
  "increment counter = (case counter of None \<Rightarrow> Inl TypeError | Some n \<Rightarrow> Inr (Some (n + 1)))"

definition get_symbol_size ::
  "Row \<Rightarrow> (string \<times> int) list option \<Rightarrow> string \<Rightarrow> int option \<times> bool \<Rightarrow>
     error + (int option \<times> int option)" where
  "get_symbol_size element symbol_size_list ta_sy dbg =
     (case dbg of (not_found_size_symbol, debug) \<Rightarrow>
        let table = (case symbol_size_list of None \<Rightarrow> [] | Some t \<Rightarrow> t)
        in if table = []
           then (case py_int (symbol_size element) of
                   Inl e \<Rightarrow> Inl e
                 | Inr n \<Rightarrow> Inr (Some n, not_found_size_symbol))
           else
             (case map_of table ta_sy of
                Some n \<Rightarrow> Inr (Some n, not_found_size_symbol)
              | None \<Rightarrow>
                  (case (if debug then increment not_found_size_symbol
                         else Inr not_found_size_symbol) of
                     Inl e \<Rightarrow> Inl e
                   | Inr not_found_size_symbol' \<Rightarrow>
                       (case symbol_size element of
                          None \<Rightarrow> Inr (None, None)
                        | Some v \<Rightarrow>
                            (case py_int (Some v) of
                               Inl e \<Rightarrow> Inl e
                             | Inr n \<Rightarrow> Inr (Some n, not_found_size_symbol'))))))"

text \<open>\<open>Node.add_samples\<close> and the constructor of \<open>Predecessor\<close> (src/common/classes.py).\<close>

definition add_samples :: "Node \<Rightarrow> int \<Rightarrow> int \<Rightarrow> error + Node" where
  "add_samples node smpls total_samples =
     (let node1 = node\<lparr>global_samples := global_samples node + smpls\<rparr>
      in case py_truediv (global_samples node1) total_samples of
           Inl e \<Rightarrow> Inl e
         | Inr q \<Rightarrow> Inr (node1\<lparr>global_weight := py_round q 4\<rparr>))"

definition Predecessor_init :: "Row \<Rightarrow> int \<Rightarrow> error + Predecessor" where
  "Predecessor_init element total_samples =
     (case py_truediv (samples element) total_samples of
        Inl e \<Rightarrow> Inl e
      | Inr q \<Rightarrow>
          Inr \<lparr>caller_function_name = source_symbol element,
               samples_to_target = samples element,
               weight_to_target = py_mul q 100\<rparr>)"

fun collect_node :: "Node \<Rightarrow> Row list \<Rightarrow> string \<Rightarrow> int \<Rightarrow> error + Node" where
  "collect_node node [] ta_sy total_samples = Inr node"
| "collect_node node (el # rest) ta_sy total_samples =
     (if target_symbol el = ta_sy
      then (case add_samples node (samples el) total_samples of
              Inl e \<Rightarrow> Inl e
            | Inr node1 \<Rightarrow>
                if source_symbol el \<noteq> ta_sy
                then (case Predecessor_init el total_samples of
                        Inl e \<Rightarrow> Inl e
                      | Inr p \<Rightarrow>
                          collect_node (node1\<lparr>predecessors := predecessors node1 @ [p]\<rparr>)
                            rest ta_sy total_samples)
                else collect_node node1 rest ta_sy total_samples)
      else collect_node node rest ta_sy total_samples)"

definition create_new_node :: "Row list \<Rightarrow> int \<Rightarrow> string \<Rightarrow> int \<Rightarrow> error + Node" where
  "create_new_node vals sym_size ta_sy total_samples =
     collect_node \<lparr>function_name = ta_sy, size_bytes = sym_size, global_samples = 0,
                   global_weight = 0, predecessors = []\<rparr> vals ta_sy total_samples"

text \<open>
  The loop of \<open>parse_and_combine_information_from_multiple_files\<close> over the rows of
  the section, on the nodes built so far, the examined target symbols and the three
  counters, and the statistics printed after it at log level INFO or DEBUG (of which
  the model keeps the division, which can raise). The section has been chosen, its
  \<open>total_samples\<close> read and the size table loaded before the loop.
\<close>

record Builder =
  built_nodes :: "Node list"
  examined_nodes :: "string list"
  not_found_size_symbols :: "int option"
  correct_symbols :: int
  hex_symbols :: int

definition build_step ::
  "bool \<Rightarrow> (string \<times> int) list option \<Rightarrow> int \<Rightarrow> Row list \<Rightarrow> Builder \<Rightarrow> Row \<Rightarrow>
     error + Builder" where
  "build_step debug symbol_size_list total_samples vals b element =
     (let ta_sy = target_symbol element
      in if ta_sy \<in> set (examined_nodes b) then Inr b
         else if is_hex ta_sy
         then Inr (b\<lparr>examined_nodes := examined_nodes b @ [ta_sy],
                     hex_symbols := hex_symbols b + 1\<rparr>)
         else
           (case get_symbol_size element symbol_size_list ta_sy
                   (not_found_size_symbols b, debug) of
              Inl e \<Rightarrow> Inl e
            | Inr (sym_size, not_found) \<Rightarrow>
                let dismissed =
                      (case (if debug then increment not_found else Inr not_found) of
                         Inl e \<Rightarrow> Inl e
                       | Inr not_found' \<Rightarrow>
                           Inr (b\<lparr>examined_nodes := examined_nodes b @ [ta_sy],
                                  not_found_size_symbols := not_found',
                                  correct_symbols := correct_symbols b + 1\<rparr>))
                in (case sym_size of
                      None \<Rightarrow> dismissed
                    | Some n \<Rightarrow>
                        if n = 0 then dismissed
                        else (case create_new_node vals n ta_sy total_samples of
                                Inl e \<Rightarrow> Inl e
                              | Inr node \<Rightarrow>
                                  Inr (b\<lparr>built_nodes := built_nodes b @ [node],
                                         examined_nodes := examined_nodes b @ [ta_sy],
                                         not_found_size_symbols := not_found,
                                         correct_symbols := correct_symbols b + 1\<rparr>)))))"

fun build_loop ::
  "bool \<Rightarrow> (string \<times> int) list option \<Rightarrow> int \<Rightarrow> Row list \<Rightarrow> Builder \<Rightarrow> Row list \<Rightarrow>
     error + Builder" where
  "build_loop debug symbol_size_list total_samples vals b [] = Inr b"
| "build_loop debug symbol_size_list total_samples vals b (element # rest) =
     (case build_step debug symbol_size_list total_samples vals b element of
        Inl e \<Rightarrow> Inl e
      | Inr b' \<Rightarrow> build_loop debug symbol_size_list total_samples vals b' rest)"

definition parse_and_combine_information ::
  "int option \<Rightarrow> (string \<times> int) list option \<Rightarrow> int \<Rightarrow> Row list \<Rightarrow> error + Node list" where
  "parse_and_combine_information lvl symbol_size_list total_samples vals =
     (case build_loop (lvl = Some logging_DEBUG) symbol_size_list total_samples vals
             \<lparr>built_nodes = [], examined_nodes = [], not_found_size_symbols = Some 0,
              correct_symbols = 0, hex_symbols = 0\<rparr> vals of
        Inl e \<Rightarrow> Inl e
      | Inr b \<Rightarrow>
          if lvl \<in> {Some logging_INFO, Some logging_DEBUG}
          then (case not_found_size_symbols b of
                  None \<Rightarrow> Inl TypeError
                | Some n \<Rightarrow>
                    (case py_truediv n (correct_symbols b) of
                       Inl e \<Rightarrow> Inl e
                     | Inr ratio \<Rightarrow> Inr (built_nodes b)))
          else Inr (built_nodes b))"

section \<open>Predicates used in the statements\<close>

text \<open>
  The nodes held by the clusters of the sorter, in list order; the class invariant of
  \<open>Cluster\<close> that \<open>_update_density\<close> establishes (the stored totals are the sums
  over the member nodes); clusters that are not empty and whose nodes all have a positive
  size; \<open>_find_cluster\<close>'s search as a predicate; and an embedded size that
  \<open>int\<close> does not turn into a negative number.
\<close>

definition clustered_nodes :: "HFSorter \<Rightarrow> Node list" where
  "clustered_nodes self = concat (map nodes (cluster_list self))"

definition totals_consistent :: "Cluster \<Rightarrow> bool" where
  "totals_consistent c \<longleftrightarrow>
     total_size c = sum_list (map size_bytes (nodes c)) \<and>
     total_time c = sum_list (map global_samples (nodes c))"

definition well_sized :: "Cluster \<Rightarrow> bool" where
  "well_sized c \<longleftrightarrow> nodes c \<noteq> [] \<and> list_all (\<lambda>n. 0 < size_bytes n) (nodes c)"

definition in_some_cluster :: "HFSorter \<Rightarrow> Node \<Rightarrow> bool" where
  "in_some_cluster self node =
     list_ex (\<lambda>cluster. list_ex (\<lambda>cluster_node. node_eq cluster_node node) (nodes cluster))
       (cluster_list self)"

definition nonneg_size :: "pyval option \<Rightarrow> bool" where
  "nonneg_size v = (case py_int v of Inl e \<Rightarrow> True | Inr n \<Rightarrow> 0 \<le> n)"

section \<open>Concrete inputs\<close>

text \<open>
  Scenario A of the specification: \<open>A\<close> (100 samples, 50 bytes), \<open>B\<close> (80 samples,
  40 bytes, called by \<open>A\<close> in 80 samples) and \<open>C\<close> (10 samples, 1000 bytes), at
  page size 4096. The scenario does not give the weight of the arc from \<open>A\<close> to
  \<open>B\<close>; it is the parameter \<open>w\<close>. The nodes are built directly, with the
  default \<open>global_weight\<close> 0, which the sorter never reads. The clusters are
  written out as \<open>Cluster(node, pagesize)\<close> builds them (\<open>binary64 (1 / 100)\<close> is
  the float \<open>0.01\<close>), and \<open>cluster_BA\<close> is the cluster of \<open>B\<close> after it has
  absorbed the cluster of \<open>A\<close>.
\<close>

definition scenario_A_args :: Args where
  "scenario_A_args = \<lparr>pagesize = 4096, k_min_prob = None, loglevel = None\<rparr>"

definition node_A :: Node where
  "node_A = \<lparr>function_name = ''A'', size_bytes = 50, global_samples = 100,
             global_weight = 0, predecessors = []\<rparr>"

definition node_B :: "rat \<Rightarrow> Node" where
  "node_B w = \<lparr>function_name = ''B'', size_bytes = 40, global_samples = 80,
               global_weight = 0,
               predecessors = [\<lparr>caller_function_name = ''A'', samples_to_target = 80,
                                weight_to_target = w\<rparr>]\<rparr>"

definition node_C :: Node where
  "node_C = \<lparr>function_name = ''C'', size_bytes = 1000, global_samples = 10,
             global_weight = 0, predecessors = []\<rparr>"

definition scenario_A_nodes :: "rat \<Rightarrow> Node list" where
  "scenario_A_nodes w = [node_A, node_B w, node_C]"

definition cluster_A :: "int \<Rightarrow> Cluster" where
  "cluster_A p = \<lparr>page_size = p, k_caller_degrade_factor = 8, nodes = [node_A],
                  total_time = 100, total_size = 50, density = 2\<rparr>"

definition cluster_B :: "int \<Rightarrow> rat \<Rightarrow> Cluster" where
  "cluster_B p w = \<lparr>page_size = p, k_caller_degrade_factor = 8, nodes = [node_B w],
                    total_time = 80, total_size = 40, density = 2\<rparr>"

definition cluster_C :: "int \<Rightarrow> Cluster" where
  "cluster_C p = \<lparr>page_size = p, k_caller_degrade_factor = 8, nodes = [node_C],
                  total_time = 10, total_size = 1000, density = binary64 (1 / 100)\<rparr>"

definition cluster_BA :: "int \<Rightarrow> rat \<Rightarrow> Cluster" where
  "cluster_BA p w = \<lparr>page_size = p, k_caller_degrade_factor = 8, nodes = [node_B w, node_A],
                     total_time = 180, total_size = 90, density = 2\<rparr>"

definition scenario_A_sorter :: "rat \<Rightarrow> Cluster list \<Rightarrow> HFSorter" where
  "scenario_A_sorter w cs =
     \<lparr>node_list = [node_A, node_B w, node_C], cluster_list = cs,
      hf_k_caller_degrade_factor = None, hf_loglevel = None\<rparr>"

text \<open>
  A run with \<open>--min-probability 0.5\<close>: \<open>X\<close> (100 samples, 100 bytes) is called
  by \<open>Y\<close> (50 samples, 25 bytes).
\<close>

definition override_args :: Args where
  "override_args = \<lparr>pagesize = 4096, k_min_prob = Some (1 / 2), loglevel = None\<rparr>"

definition node_X :: Node where
  "node_X = \<lparr>function_name = ''X'', size_bytes = 100, global_samples = 100,
             global_weight = 0,
             predecessors = [\<lparr>caller_function_name = ''Y'', samples_to_target = 100,
                              weight_to_target = 64\<rparr>]\<rparr>"

definition node_Y :: Node where
  "node_Y = \<lparr>function_name = ''Y'', size_bytes = 25, global_samples = 50,
             global_weight = 0, predecessors = []\<rparr>"

definition cluster_X :: Cluster where
  "cluster_X = \<lparr>page_size = 4096, k_caller_degrade_factor = 8, nodes = [node_X],
                total_time = 100, total_size = 100, density = 1\<rparr>"

definition cluster_Y :: Cluster where
  "cluster_Y = \<lparr>page_size = 4096, k_caller_degrade_factor = 8, nodes = [node_Y],
                total_time = 50, total_size = 25, density = 2\<rparr>"

text \<open>
  Scenario D of the specification: page size 100 and two clusters of 60 bytes each,
  \<open>D2\<close> called by \<open>D1\<close>.
\<close>

definition scenario_D_args :: Args where
  "scenario_D_args = \<lparr>pagesize = 100, k_min_prob = None, loglevel = None\<rparr>"

definition node_D1 :: Node where
  "node_D1 = \<lparr>function_name = ''D1'', size_bytes = 60, global_samples = 30,
              global_weight = 0, predecessors = []\<rparr>"

definition node_D2 :: Node where
  "node_D2 = \<lparr>function_name = ''D2'', size_bytes = 60, global_samples = 60,
              global_weight = 0,
              predecessors = [\<lparr>caller_function_name = ''D1'', samples_to_target = 60,
                               weight_to_target = 64\<rparr>]\<rparr>"

definition cluster_D1 :: Cluster where
  "cluster_D1 = \<lparr>page_size = 100, k_caller_degrade_factor = 8, nodes = [node_D1],
                 total_time = 30, total_size = 60, density = 1 / 2\<rparr>"

definition cluster_D2 :: Cluster where
  "cluster_D2 = \<lparr>page_size = 100, k_caller_degrade_factor = 8, nodes = [node_D2],
                 total_time = 60, total_size = 60, density = 1\<rparr>"

definition scenario_D_sorter :: HFSorter where
  "scenario_D_sorter =
     \<lparr>node_list = [node_D2, node_D1], cluster_list = [cluster_D1, cluster_D2],
      hf_k_caller_degrade_factor = None, hf_loglevel = None\<rparr>"

text \<open>
  A node with two callers: \<open>D1\<close>, first in the list, with 10 samples and the weight
  50, and \<open>Z\<close> with the maximal 20 samples and the weight 0.0625.
\<close>

definition node_T :: Node where
  "node_T = \<lparr>function_name = ''T'', size_bytes = 10, global_samples = 30,
             global_weight = 0,
             predecessors = [\<lparr>caller_function_name = ''D1'', samples_to_target = 10,
                              weight_to_target = 50\<rparr>,
                             \<lparr>caller_function_name = ''Z'', samples_to_target = 20,
                              weight_to_target = 1 / 16\<rparr>]\<rparr>"

text \<open>A row for the target \<open>foo\<close> that carries no \<open>symbol_size\<close>.\<close>

definition missing_size_row :: Row where
  "missing_size_row = \<lparr>samples = 10, source_symbol = ''main'', target_symbol = ''foo'',
                        symbol_size = None\<rparr>"

text \<open>
  Two rows, \<open>f\<close> called by \<open>g\<close> and \<open>g\<close> called by \<open>f\<close>, whose size
  columns read \<open>5\<close> and \<open>-5\<close>: the report parser makes an int of the digit string
  and leaves \<open>-5\<close> a string. \<open>node_f\<close> and \<open>node_g\<close> are the nodes the graph
  builder makes of them at 20 total samples. The same with the sizes 5 and 7.
\<close>

definition negative_size_rows :: "Row list" where
  "negative_size_rows =
     [\<lparr>samples = 10, source_symbol = ''g'', target_symbol = ''f'', symbol_size = Some (PInt 5)\<rparr>,
      \<lparr>samples = 10, source_symbol = ''f'', target_symbol = ''g'',
       symbol_size = Some (PStr ''-5'')\<rparr>]"

definition node_f :: Node where
  "node_f = \<lparr>function_name = ''f'', size_bytes = 5, global_samples = 10,
             global_weight = 1 / 2,
             predecessors = [\<lparr>caller_function_name = ''g'', samples_to_target = 10,
                              weight_to_target = 50\<rparr>]\<rparr>"

definition node_g :: Node where
  "node_g = \<lparr>function_name = ''g'', size_bytes = - 5, global_samples = 10,
             global_weight = 1 / 2,
             predecessors = [\<lparr>caller_function_name = ''f'', samples_to_target = 10,
                              weight_to_target = 50\<rparr>]\<rparr>"

definition positive_size_rows :: "Row list" where
  "positive_size_rows =
     [\<lparr>samples = 10, source_symbol = ''h'', target_symbol = ''f'', symbol_size = Some (PInt 5)\<rparr>,
      \<lparr>samples = 10, source_symbol = ''f'', target_symbol = ''h'', symbol_size = Some (PInt 7)\<rparr>]"

definition node_fh :: Node where
  "node_fh = \<lparr>function_name = ''f'', size_bytes = 5, global_samples = 10,
              global_weight = 1 / 2,
              predecessors = [\<lparr>caller_function_name = ''h'', samples_to_target = 10,
                               weight_to_target = 50\<rparr>]\<rparr>"

definition node_h :: Node where
  "node_h = \<lparr>function_name = ''h'', size_bytes = 7, global_samples = 10,
             global_weight = 1 / 2,
             predecessors = [\<lparr>caller_function_name = ''f'', samples_to_target = 10,
                              weight_to_target = 50\<rparr>]\<rparr>"

section \<open>Rules for evaluating the model on concrete inputs\<close>

text \<open>
  The floats that occur in the concrete inputs, computed from the definitions:
  \<open>0.1\<close>, \<open>0.01\<close> and \<open>1.2\<close> are not binary fractions.
\<close>

lemma float_values:
  "binary64 1 = 1"
  "binary64 2 = 2"
  "binary64 8 = 8"
  "binary64 100 = 100"
  "binary64 (1 / 2) = 1 / 2"
  "binary64 (- 2) = - 2"
  "binary64 (1 / 10) = 3602879701896397 / 36028797018963968"
  "binary64 (1 / 100) = 5764607523034235 / 576460752303423488"
  "binary64 (6 / 5) = 5404319552844595 / 4503599627370496"
  "py_round 1 4 = 1"
  "py_round 2 4 = 2"
  "py_round (1 / 2) 4 = 1 / 2"
  "py_round (- 2) 4 = - 2"
  "py_round (5764607523034235 / 576460752303423488) 4 = 5764607523034235 / 576460752303423488"
  "py_round (5404319552844595 / 4503599627370496) 4 = 5404319552844595 / 4503599627370496"
  "py_mul 2 8 = 16"
  "py_mul (1 / 2) 100 = 50"
  "py_mul (5404319552844595 / 4503599627370496) 8 = 5404319552844595 / 562949953421312"
  "py_mul (5404319552844595 / 4503599627370496) (1 / 2) = 5404319552844595 / 9007199254740992"
  by code_simp+

lemmas scenario_A_defs =
  scenario_A_args_def node_A_def node_B_def node_C_def scenario_A_nodes_def cluster_A_def
  cluster_B_def cluster_C_def cluster_BA_def scenario_A_sorter_def

lemmas scenario_defs =
  override_args_def node_X_def node_Y_def cluster_X_def cluster_Y_def scenario_D_args_def
  node_D1_def node_D2_def cluster_D1_def cluster_D2_def scenario_D_sorter_def node_T_def
  missing_size_row_def negative_size_rows_def node_f_def node_g_def positive_size_rows_def
  node_fh_def node_h_def

lemmas cluster_simps =
  Cluster_init_def update_density_def update_time_def update_size_def py_truediv_def
  check_cluster_merge_def Let_def float_values

lemmas sorter_simps =
  sort_nodes_def HFSorter_init_def HFSorter_sort_def py_sorted_reverse_def sort_step_def
  get_most_likely_predecessor_def get_biggest_predecessor_def find_cluster_def node_eq_def
  merge_clusters_def delete_at_def sort_functions_in_clusters_def K_MIN_ARC_PROBABILITY_def
  logging_INFO_def logging_DEBUG_def

lemmas builder_simps =
  parse_and_combine_information_def build_step_def get_symbol_size_def py_int_def is_hex_def
  increment_def create_new_node_def add_samples_def Predecessor_init_def int_of_str_def
  strip_def is_space_def is_digit_def Let_def

section \<open>Lists: replacing one element and deleting another\<close>

lemma mset_delete_at:
  "j < length xs \<Longrightarrow> add_mset (xs ! j) (mset (delete_at j xs)) = mset xs"
proof -
  assume "j < length xs"
  then have "xs = take j xs @ xs ! j # drop (Suc j) xs"
    by (rule id_take_nth_drop)
  then have "mset xs = mset (take j xs @ xs ! j # drop (Suc j) xs)"
    by simp
  then show ?thesis
    by (simp add: delete_at_def)
qed

lemma mset_list_update:
  "i < length xs \<Longrightarrow> add_mset (xs ! i) (mset (xs[i := y])) = add_mset y (mset xs)"
  by (induction xs arbitrary: i) (auto simp: nth_Cons' split: nat.splits)

lemma mset_delete_at_update:
  "i < length xs \<Longrightarrow> j < length xs \<Longrightarrow> i \<noteq> j \<Longrightarrow>
     mset (delete_at j (xs[i := y])) + {#xs ! i, xs ! j#} = add_mset y (mset xs)"
proof -
  assume i: "i < length xs" and j: "j < length xs" and ij: "i \<noteq> j"
  let ?ys = "xs[i := y]"
  from j have "add_mset (?ys ! j) (mset (delete_at j ?ys)) = mset ?ys"
    by (simp add: mset_delete_at)
  moreover from ij have "?ys ! j = xs ! j"
    by simp
  ultimately have "add_mset (xs ! j) (mset (delete_at j ?ys)) = mset ?ys"
    by simp
  then have "add_mset (xs ! i) (add_mset (xs ! j) (mset (delete_at j ?ys))) =
             add_mset (xs ! i) (mset ?ys)"
    by simp
  also from i have "\<dots> = add_mset y (mset xs)"
    by (rule mset_list_update)
  finally show ?thesis
    by simp
qed

lemma set_delete_at_update:
  "set (delete_at j (xs[i := y])) \<subseteq> insert y (set xs)"
proof -
  have "set (delete_at j (xs[i := y])) \<subseteq> set (xs[i := y])"
    unfolding delete_at_def using set_take_subset set_drop_subset by fastforce
  also have "\<dots> \<subseteq> insert y (set xs)"
    by (rule set_update_subset_insert)
  finally show ?thesis .
qed

lemma mset_py_sorted_reverse [simp]: "mset (py_sorted_reverse k xs) = mset xs"
  by (simp add: py_sorted_reverse_def)

lemma set_py_sorted_reverse [simp]: "set (py_sorted_reverse k xs) = set xs"
  by (simp add: py_sorted_reverse_def)

lemma length_py_sorted_reverse [simp]: "length (py_sorted_reverse k xs) = length xs"
  by (simp add: py_sorted_reverse_def)

section \<open>The cluster operations\<close>

lemma update_density_eq:
  "update_density c =
     (if sum_list (map size_bytes (nodes c)) = 0 then Inl ZeroDivisionError
      else Inr (c\<lparr>total_time := sum_list (map global_samples (nodes c)),
                 total_size := sum_list (map size_bytes (nodes c)),
                 density := py_round (binary64 (of_int (sum_list (map global_samples (nodes c))) /
                                                of_int (sum_list (map size_bytes (nodes c))))) 4\<rparr>))"
  by (simp add: update_density_def update_time_def update_size_def py_truediv_def Let_def)

lemma check_cluster_merge_accept:
  assumes "check_cluster_merge s t = Inr (False, m)"
  shows "nodes m = nodes s @ nodes t"
    and "page_size m = page_size s"
    and "k_caller_degrade_factor m = k_caller_degrade_factor s"
    and "totals_consistent m"
    and "total_size s + total_size t \<le> page_size s"
  using assms
  by (auto simp: check_cluster_merge_def update_density_eq py_truediv_def totals_consistent_def
      split: if_splits)

lemma check_cluster_merge_reject:
  "check_cluster_merge s t = Inr (True, m) \<Longrightarrow> m = s"
  by (auto simp: check_cluster_merge_def update_density_eq py_truediv_def split: if_splits)

lemma sum_list_sizes_pos:
  assumes "ns \<noteq> []" and "\<forall>n\<in>set ns. 0 < size_bytes n"
  shows "0 < sum_list (map size_bytes ns)"
proof -
  have nonneg: "\<forall>n\<in>set xs. 0 < size_bytes n \<Longrightarrow> 0 \<le> sum_list (map size_bytes xs)" for xs
    by (induction xs) auto
  from assms(1) obtain a as where "ns = a # as"
    by (cases ns) auto
  with assms(2) nonneg [of as] show ?thesis
    by auto
qed

lemma well_sized_total_size:
  "totals_consistent c \<Longrightarrow> well_sized c \<Longrightarrow> 0 < total_size c"
  by (simp add: totals_consistent_def well_sized_def list_all_iff sum_list_sizes_pos)

lemma check_cluster_merge_total:
  assumes "totals_consistent s" "totals_consistent t" "well_sized s" "well_sized t"
  shows "\<exists>r m. check_cluster_merge s t = Inr (r, m)"
proof -
  from assms have "0 < total_size s" "0 < total_size t"
    by (simp_all add: well_sized_total_size)
  moreover from assms(1,2)
  have "sum_list (map size_bytes (nodes s @ nodes t)) = total_size s + total_size t"
    by (simp add: totals_consistent_def)
  ultimately show ?thesis
    by (auto simp: check_cluster_merge_def update_density_eq py_truediv_def)
qed

lemma check_cluster_merge_well_sized:
  assumes "totals_consistent a \<and> well_sized a" "totals_consistent b \<and> well_sized b"
    and "check_cluster_merge a b = Inr (False, m)"
  shows "totals_consistent m \<and> well_sized m"
  using assms(1,2) check_cluster_merge_accept(1,4) [OF assms(3)]
  by (simp add: well_sized_def)

lemma merge_clusters_Inr:
  assumes "merge_clusters self si ti = Inr self'"
  shows "self' = self \<or>
         (si < length (cluster_list self) \<and> ti < length (cluster_list self) \<and>
          (\<exists>m. check_cluster_merge (cluster_list self ! si) (cluster_list self ! ti) = Inr (False, m) \<and>
               self' = self\<lparr>cluster_list := delete_at ti ((cluster_list self)[si := m])\<rparr>))"
  using assms
  by (auto simp: merge_clusters_def Let_def split: if_splits sum.splits)

section \<open>The lookups\<close>

lemma find_cluster_index_Some:
  "find_cluster_index cl n = Some i \<Longrightarrow>
     i < length cl \<and> list_ex (\<lambda>cn. node_eq cn n) (nodes (cl ! i))"
  by (induction cl arbitrary: i) (auto split: if_splits)

lemma find_cluster_index_None:
  "find_cluster_index cl n = None \<longleftrightarrow>
     \<not> list_ex (\<lambda>c. list_ex (\<lambda>cn. node_eq cn n) (nodes c)) cl"
  by (induction cl) auto

lemma find_cluster_total:
  assumes "n \<in> set (clustered_nodes self)"
  shows "\<exists>i. find_cluster self n = Inr i \<and> i < length (cluster_list self)"
proof -
  from assms obtain c where "c \<in> set (cluster_list self)" "n \<in> set (nodes c)"
    by (auto simp: clustered_nodes_def)
  then have "list_ex (\<lambda>c. list_ex (\<lambda>cn. node_eq cn n) (nodes c)) (cluster_list self)"
    by (auto simp: list_ex_iff node_eq_def)
  then obtain i where "find_cluster_index (cluster_list self) n = Some i"
    using find_cluster_index_None [of "cluster_list self" n] by auto
  with find_cluster_index_Some [OF this] show ?thesis
    by (simp add: find_cluster_def)
qed

lemma get_biggest_predecessor_max:
  assumes "get_biggest_predecessor node = Some p"
  shows "p \<in> set (predecessors node) \<and>
         (\<forall>q\<in>set (predecessors node). samples_to_target q \<le> samples_to_target p)"
proof -
  have "py_max_from k b xs \<in> set (b # xs) \<and> (\<forall>q\<in>set (b # xs). k q \<le> k (py_max_from k b xs))"
    for k :: "Predecessor \<Rightarrow> int" and b xs
  proof (induction xs arbitrary: b)
    case Nil
    then show ?case by simp
  next
    case (Cons x xs)
    from Cons.IH [of "if k x > k b then x else b"] show ?case
      by (auto split: if_splits)
  qed
  with assms show ?thesis
    by (auto simp: get_biggest_predecessor_def split: list.splits)
qed

lemma get_most_likely_predecessor_in:
  "get_most_likely_predecessor self n = Some p \<Longrightarrow> p \<in> set (node_list self)"
  by (auto simp: get_most_likely_predecessor_def find_Some_iff split: option.splits if_splits)

section \<open>One step of the loop and the whole loop\<close>

text \<open>
  A step either leaves the sorter as it is or performs one accepted merge: the source
  cluster is replaced by the merged one and the target cluster is deleted. Every fact
  about the loop below follows from this by induction on the nodes still to process.
\<close>

lemma sort_step_Inr:
  assumes "sort_step (self, index) node = Inr (self', index')"
  shows "self' = self \<or>
         (\<exists>si ti m. si < length (cluster_list self) \<and> ti < length (cluster_list self) \<and> si \<noteq> ti \<and>
            check_cluster_merge (cluster_list self ! si) (cluster_list self ! ti) = Inr (False, m) \<and>
            self' = self\<lparr>cluster_list := delete_at ti ((cluster_list self)[si := m])\<rparr>)"
proof (cases "get_most_likely_predecessor self node")
  case None
  with assms show ?thesis by (simp add: sort_step_def)
next
  case (Some p)
  with assms obtain si ti where si: "find_cluster self node = Inr si"
    and ti: "find_cluster self p = Inr ti"
    by (auto simp: sort_step_def split: sum.splits)
  show ?thesis
  proof (cases "si = ti")
    case True
    with assms Some si ti show ?thesis by (simp add: sort_step_def)
  next
    case False
    with assms Some si ti have "merge_clusters self si ti = Inr self'"
      by (auto simp: sort_step_def split: sum.splits)
    from merge_clusters_Inr [OF this] False show ?thesis by blast
  qed
qed

lemma mset_concat_nodes:
  "mset (concat (map nodes xs)) = sum_mset (image_mset (\<lambda>c. mset (nodes c)) (mset xs))"
  by (induction xs) simp_all

lemma mset_concat_nodes_merge:
  assumes "si < length cl" "ti < length cl" "si \<noteq> ti"
    and "nodes m = nodes (cl ! si) @ nodes (cl ! ti)"
  shows "mset (concat (map nodes (delete_at ti (cl[si := m])))) = mset (concat (map nodes cl))"
proof -
  let ?g = "\<lambda>c. mset (nodes c)"
  have sum: "mset (concat (map nodes xs)) = sum_mset (image_mset ?g (mset xs))" for xs
    by (induction xs) simp_all
  from assms(1-3)
  have "mset (delete_at ti (cl[si := m])) + {#cl ! si, cl ! ti#} = add_mset m (mset cl)"
    by (rule mset_delete_at_update)
  then have "sum_mset (image_mset ?g (mset (delete_at ti (cl[si := m])) + {#cl ! si, cl ! ti#})) =
             sum_mset (image_mset ?g (add_mset m (mset cl)))"
    by simp
  with assms(4) show ?thesis
    by (simp add: sum ac_simps)
qed

lemma sort_step_mset:
  assumes "sort_step (self, index) node = Inr (self', index')"
  shows "mset (clustered_nodes self') = mset (clustered_nodes self)"
    and "node_list self' = node_list self"
    and "hf_loglevel self' = hf_loglevel self"
  using sort_step_Inr [OF assms]
  by (auto simp: clustered_nodes_def mset_concat_nodes_merge dest: check_cluster_merge_accept(1))

lemma sort_loop_mset:
  "sort_loop (self, index) ns = Inr (self', index') \<Longrightarrow>
     mset (clustered_nodes self') = mset (clustered_nodes self) \<and>
     node_list self' = node_list self \<and> hf_loglevel self' = hf_loglevel self"
proof (induction ns arbitrary: self index)
  case Nil
  then show ?case by simp
next
  case (Cons n ns)
  from Cons.prems obtain s1 i1 where step: "sort_step (self, index) n = Inr (s1, i1)"
    and rest: "sort_loop (s1, i1) ns = Inr (self', index')"
    by (auto split: sum.splits)
  from Cons.IH [OF rest] sort_step_mset [OF step] show ?case
    by simp
qed

lemma sort_step_clusters:
  assumes step: "sort_step (self, index) node = Inr (self', index')"
    and all: "\<forall>c\<in>set (cluster_list self). P c"
    and merge: "\<And>a b m. P a \<Longrightarrow> P b \<Longrightarrow> check_cluster_merge a b = Inr (False, m) \<Longrightarrow> P m"
  shows "\<forall>c\<in>set (cluster_list self'). P c"
proof -
  from sort_step_Inr [OF step] consider "self' = self"
    | si ti m where "si < length (cluster_list self)" "ti < length (cluster_list self)"
        "check_cluster_merge (cluster_list self ! si) (cluster_list self ! ti) = Inr (False, m)"
        "self' = self\<lparr>cluster_list := delete_at ti ((cluster_list self)[si := m])\<rparr>"
    by blast
  then show ?thesis
  proof cases
    case 1
    with all show ?thesis by simp
  next
    case 2
    from all 2(1,2) have "P (cluster_list self ! si)" "P (cluster_list self ! ti)"
      by simp_all
    from merge [OF this 2(3)] have "P m" .
    moreover have "set (cluster_list self') \<subseteq> insert m (set (cluster_list self))"
      using 2(4) by (simp add: set_delete_at_update)
    ultimately show ?thesis
      using all by auto
  qed
qed

lemma sort_loop_clusters:
  assumes "sort_loop (self, index) ns = Inr (self', index')"
    and "\<forall>c\<in>set (cluster_list self). P c"
    and merge: "\<And>a b m. P a \<Longrightarrow> P b \<Longrightarrow> check_cluster_merge a b = Inr (False, m) \<Longrightarrow> P m"
  shows "\<forall>c\<in>set (cluster_list self'). P c"
  using assms(1,2)
proof (induction ns arbitrary: self index)
  case Nil
  then show ?case by simp
next
  case (Cons n ns)
  from Cons.prems(1) obtain s1 i1 where step: "sort_step (self, index) n = Inr (s1, i1)"
    and rest: "sort_loop (s1, i1) ns = Inr (self', index')"
    by (auto split: sum.splits)
  have "\<forall>c\<in>set (cluster_list s1). P c"
    by (rule sort_step_clusters [OF step Cons.prems(2)]) (rule merge)
  from Cons.IH [OF rest this] show ?case .
qed

text \<open>
  The loop over a prefix of the nodes is the first part of the loop over all of them:
  its result on \<open>take k\<close> of the nodes is the state the run is in after \<open>k\<close> nodes.
\<close>

lemma sort_loop_append:
  "sort_loop st (xs @ ys) =
     (case sort_loop st xs of Inl e \<Rightarrow> Inl e | Inr st' \<Rightarrow> sort_loop st' ys)"
  by (induction xs arbitrary: st) (auto split: sum.splits)

lemma sort_step_total:
  assumes inv: "\<forall>c\<in>set (cluster_list self). totals_consistent c \<and> well_sized c"
    and nl: "set (node_list self) \<subseteq> set (clustered_nodes self)"
    and n: "n \<in> set (clustered_nodes self)"
  shows "\<exists>st'. sort_step (self, index) n = Inr st'"
proof (cases "get_most_likely_predecessor self n")
  case None
  then show ?thesis by (simp add: sort_step_def)
next
  case (Some p)
  with nl have "p \<in> set (clustered_nodes self)"
    using get_most_likely_predecessor_in by blast
  from find_cluster_total [OF this] obtain ti
    where ti: "find_cluster self p = Inr ti" "ti < length (cluster_list self)" by blast
  from find_cluster_total [OF n] obtain si
    where si: "find_cluster self n = Inr si" "si < length (cluster_list self)" by blast
  from inv si(2) ti(2)
  have "totals_consistent (cluster_list self ! si)" "totals_consistent (cluster_list self ! ti)"
    "well_sized (cluster_list self ! si)" "well_sized (cluster_list self ! ti)"
    by simp_all
  from check_cluster_merge_total [OF this] obtain r m
    where "check_cluster_merge (cluster_list self ! si) (cluster_list self ! ti) = Inr (r, m)"
    by blast
  with si(2) ti(2) have "\<exists>s'. merge_clusters self si ti = Inr s'"
    by (simp add: merge_clusters_def Let_def)
  with Some si(1) ti(1) show ?thesis
    by (auto simp: sort_step_def)
qed

lemma sort_loop_total:
  assumes "\<forall>c\<in>set (cluster_list self). totals_consistent c \<and> well_sized c"
    and "set (node_list self) \<subseteq> set (clustered_nodes self)"
    and "set ns \<subseteq> set (clustered_nodes self)"
  shows "\<exists>st'. sort_loop (self, index) ns = Inr st'"
  using assms
proof (induction ns arbitrary: self index)
  case Nil
  then show ?case by simp
next
  case (Cons n ns)
  from Cons.prems(3) have "n \<in> set (clustered_nodes self)" by simp
  from sort_step_total [OF Cons.prems(1,2) this] obtain s1 i1
    where step: "sort_step (self, index) n = Inr (s1, i1)" by fastforce
  have inv1: "\<forall>c\<in>set (cluster_list s1). totals_consistent c \<and> well_sized c"
    by (rule sort_step_clusters [OF step Cons.prems(1)]) (rule check_cluster_merge_well_sized)
  from sort_step_mset [OF step]
  have same: "set (clustered_nodes s1) = set (clustered_nodes self)" "node_list s1 = node_list self"
    by (auto dest: mset_eq_setD)
  with Cons.prems(2,3) have "set (node_list s1) \<subseteq> set (clustered_nodes s1)"
    "set ns \<subseteq> set (clustered_nodes s1)"
    by simp_all
  from Cons.IH [OF inv1 this] step show ?case
    by simp
qed

lemma sort_step_missing_cluster:
  assumes "get_most_likely_predecessor self node = Some predecessor_node"
    and "\<not> in_some_cluster self node \<or> \<not> in_some_cluster self predecessor_node"
  shows "sort_step (self, index) node =
           Inl (SystemExit (''ERROR Cluster index for node '' @
                  function_name (if in_some_cluster self node then predecessor_node else node) @
                  '' could not be found''))"
proof (cases "in_some_cluster self node")
  case False
  then have "find_cluster_index (cluster_list self) node = None"
    by (simp add: find_cluster_index_None in_some_cluster_def)
  with assms(1) False show ?thesis
    by (simp add: sort_step_def find_cluster_def)
next
  case True
  then obtain i where "find_cluster_index (cluster_list self) node = Some i"
    using find_cluster_index_None [of "cluster_list self" node]
    by (auto simp: in_some_cluster_def)
  moreover from True assms(2)
  have "find_cluster_index (cluster_list self) predecessor_node = None"
    by (simp add: find_cluster_index_None in_some_cluster_def)
  ultimately show ?thesis
    using assms(1) True by (simp add: sort_step_def find_cluster_def)
qed

section \<open>Construction and output\<close>

lemma init_clusters_Inr:
  "init_clusters pgsize nl = Inr cs \<Longrightarrow>
     concat (map nodes cs) = nl \<and>
     (\<forall>c\<in>set cs. totals_consistent c \<and> page_size c = pgsize \<and> (\<exists>n\<in>set nl. nodes c = [n]))"
proof (induction nl arbitrary: cs)
  case Nil
  then show ?case by simp
next
  case (Cons n nl)
  from Cons.prems obtain c cs' where c: "Cluster_init n pgsize = Inr c"
    and cs': "init_clusters pgsize nl = Inr cs'" and cs: "cs = c # cs'"
    by (auto split: sum.splits)
  from c have "nodes c = [n]" "totals_consistent c" "page_size c = pgsize"
    by (auto simp: Cluster_init_def update_density_eq totals_consistent_def split: if_splits)
  with Cons.IH [OF cs'] cs show ?case
    by auto
qed

lemma init_clusters_total:
  "\<forall>n\<in>set nl. size_bytes n \<noteq> 0 \<Longrightarrow> \<exists>cs. init_clusters pgsize nl = Inr cs"
  by (induction nl) (auto simp: Cluster_init_def update_density_eq)

lemma HFSorter_init_Inr:
  assumes "HFSorter_init args nl = Inr self"
  shows "clustered_nodes self = nl"
    and "node_list self = py_sorted_reverse global_samples nl"
    and "hf_loglevel self = loglevel args"
    and "\<forall>c\<in>set (cluster_list self).
           totals_consistent c \<and> page_size c = pagesize args \<and> (\<exists>n\<in>set nl. nodes c = [n])"
  using assms init_clusters_Inr [of "pagesize args" nl]
  by (auto simp: HFSorter_init_def clustered_nodes_def split: sum.splits)

lemma HFSorter_init_total:
  assumes "\<forall>n\<in>set nl. 0 < size_bytes n"
  shows "\<exists>self. HFSorter_init args nl = Inr self \<and>
           (\<forall>c\<in>set (cluster_list self). totals_consistent c \<and> well_sized c)"
proof -
  from assms have "\<forall>n\<in>set nl. size_bytes n \<noteq> 0" by auto
  from init_clusters_total [OF this] obtain cs where "init_clusters (pagesize args) nl = Inr cs"
    by blast
  then obtain self where self: "HFSorter_init args nl = Inr self"
    by (simp add: HFSorter_init_def)
  from HFSorter_init_Inr(4) [OF self] assms
  have "\<forall>c\<in>set (cluster_list self). totals_consistent c \<and> well_sized c"
    by (fastforce simp: well_sized_def)
  with self show ?thesis by blast
qed

lemma positive_sizes_stay_positive:
  assumes "\<forall>n\<in>set nl. 0 < size_bytes n"
  shows "\<exists>self. HFSorter_init args nl = Inr self \<and>
           (\<forall>k. \<exists>self' index.
              sort_loop (self, 0) (take k (py_sorted_reverse global_samples (node_list self))) =
                Inr (self', index) \<and>
              (\<forall>c\<in>set (cluster_list self').
                 0 < total_size c \<and> (\<exists>c'. update_density c = Inr c')))"
proof -
  from HFSorter_init_total [OF assms] obtain self where self: "HFSorter_init args nl = Inr self"
    and inv: "\<forall>c\<in>set (cluster_list self). totals_consistent c \<and> well_sized c"
    by blast
  have nodes: "set (node_list self) \<subseteq> set (clustered_nodes self)"
    using HFSorter_init_Inr(1,2) [OF self] by simp
  have "\<exists>self' index.
          sort_loop (self, 0) (take k (py_sorted_reverse global_samples (node_list self))) =
            Inr (self', index) \<and>
          (\<forall>c\<in>set (cluster_list self'). 0 < total_size c \<and> (\<exists>c'. update_density c = Inr c'))" for k
  proof -
    let ?ns = "take k (py_sorted_reverse global_samples (node_list self))"
    have "set ?ns \<subseteq> set (clustered_nodes self)"
      using nodes set_take_subset [of k "py_sorted_reverse global_samples (node_list self)"]
      by auto
    from sort_loop_total [OF inv nodes this] obtain self' index
      where loop: "sort_loop (self, 0) ?ns = Inr (self', index)" by fastforce
    have inv': "\<forall>c\<in>set (cluster_list self'). totals_consistent c \<and> well_sized c"
      by (rule sort_loop_clusters [OF loop inv]) (rule check_cluster_merge_well_sized)
    have "0 < total_size c \<and> (\<exists>c'. update_density c = Inr c')"
      if "c \<in> set (cluster_list self')" for c
    proof -
      from inv' that have c: "totals_consistent c" "well_sized c" by simp_all
      then have "0 < total_size c" by (rule well_sized_total_size)
      with c(1) show ?thesis
        by (simp add: update_density_eq totals_consistent_def)
    qed
    with loop show ?thesis by blast
  qed
  with self show ?thesis by blast
qed

lemma HFSorter_sort_Inr:
  assumes "HFSorter_sort self = Inr names"
  shows "\<exists>self' index.
           sort_loop (self, 0) (py_sorted_reverse global_samples (node_list self)) = Inr (self', index) \<and>
           names = sort_functions_in_clusters self'"
  using assms by (auto simp: HFSorter_sort_def split: sum.splits if_splits)

lemma sort_functions_in_clusters_plain:
  assumes "hf_loglevel self \<noteq> Some logging_DEBUG"
  shows "sort_functions_in_clusters self =
           map function_name (concat (map nodes (py_sorted_reverse density (cluster_list self))))"
proof -
  have "map (\<lambda>(index, cluster). map function_name (nodes cluster)) (enumerate n xs) =
        map (\<lambda>cluster. map function_name (nodes cluster)) xs" for xs :: "Cluster list" and n
    by (induction xs arbitrary: n) simp_all
  with assms show ?thesis
    by (simp add: sort_functions_in_clusters_def Let_def map_concat comp_def)
qed

lemma mset_sort_functions_in_clusters:
  assumes "hf_loglevel self \<noteq> Some logging_DEBUG"
  shows "mset (sort_functions_in_clusters self) = mset (map function_name (clustered_nodes self))"
proof -
  have "mset (concat (map nodes (py_sorted_reverse density (cluster_list self)))) =
        mset (concat (map nodes (cluster_list self)))"
    by (simp add: mset_concat_nodes)
  then have "image_mset function_name (mset (concat (map nodes (py_sorted_reverse density (cluster_list self))))) =
        image_mset function_name (mset (concat (map nodes (cluster_list self))))"
    by simp
  with assms show ?thesis
    by (simp add: sort_functions_in_clusters_plain clustered_nodes_def)
qed

lemma scenario_A_init:
  "HFSorter_init (scenario_A_args\<lparr>pagesize := p\<rparr>) (scenario_A_nodes w) =
     Inr (scenario_A_sorter w [cluster_A p, cluster_B p w, cluster_C p])"
  by (simp add: scenario_A_defs cluster_simps sorter_simps)

lemma scenario_A_loop:
  assumes "K_MIN_ARC_PROBABILITY \<le> w" "90 \<le> p"
  shows "sort_loop (scenario_A_sorter w [cluster_A p, cluster_B p w, cluster_C p], 0)
           [node_A, node_B w, node_C] =
         Inr (scenario_A_sorter w [cluster_BA p w, cluster_C p], 2)"
  using assms by (simp add: scenario_A_defs cluster_simps sorter_simps)

lemma scenario_D_init:
  "HFSorter_init scenario_D_args [node_D1, node_D2] = Inr scenario_D_sorter"
  by (simp add: scenario_defs cluster_simps sorter_simps)

section \<open>The option \<open>--min-probability\<close> has no effect on the order\<close>

text \<open>
  \<open>HFSorter.__init__\<close> stores the option in an attribute of the sorter that no
  method reads: the clusters compare against their own factor 8 and
  \<open>_get_most_likely_predecessor\<close> against the class constant 0.1.
\<close>

lemma merge_clusters_ignores_override:
  "merge_clusters (self\<lparr>hf_k_caller_degrade_factor := k\<rparr>) si ti =
     map_sum id (\<lambda>s. s\<lparr>hf_k_caller_degrade_factor := k\<rparr>) (merge_clusters self si ti)"
  by (simp add: merge_clusters_def Let_def split: sum.splits prod.splits)

lemma sort_step_ignores_override:
  "sort_step (self\<lparr>hf_k_caller_degrade_factor := k\<rparr>, index) node =
     map_sum id (\<lambda>(s, i). (s\<lparr>hf_k_caller_degrade_factor := k\<rparr>, i)) (sort_step (self, index) node)"
  by (simp add: sort_step_def get_most_likely_predecessor_def find_cluster_def
      merge_clusters_ignores_override split: option.splits sum.splits)

lemma sort_loop_ignores_override:
  "sort_loop (self\<lparr>hf_k_caller_degrade_factor := k\<rparr>, index) ns =
     map_sum id (\<lambda>(s, i). (s\<lparr>hf_k_caller_degrade_factor := k\<rparr>, i)) (sort_loop (self, index) ns)"
proof (induction ns arbitrary: self index)
  case Nil
  then show ?case by simp
next
  case (Cons n ns)
  show ?case
  proof (cases "sort_step (self, index) n")
    case (Inl e)
    then show ?thesis by (simp add: sort_step_ignores_override)
  next
    case (Inr st)
    obtain s1 i1 where "st = (s1, i1)" by (cases st)
    with Inr Cons.IH [of s1 i1] show ?thesis
      by (simp add: sort_step_ignores_override)
  qed
qed

lemma HFSorter_sort_ignores_override:
  "HFSorter_sort (self\<lparr>hf_k_caller_degrade_factor := k\<rparr>) = HFSorter_sort self"
proof -
  have names: "sort_functions_in_clusters (s\<lparr>hf_k_caller_degrade_factor := k\<rparr>) =
        sort_functions_in_clusters s" for s
    by (simp add: sort_functions_in_clusters_def)
  show ?thesis
    by (cases "sort_loop (self, 0) (py_sorted_reverse global_samples (node_list self))")
      (auto simp: HFSorter_sort_def sort_loop_ignores_override names split: sum.splits)
qed

lemma sort_nodes_ignores_k_min_prob:
  "sort_nodes (args\<lparr>k_min_prob := k\<rparr>) nl = sort_nodes args nl"
proof (cases "init_clusters (pagesize args) nl")
  case (Inl e)
  then show ?thesis by (simp add: sort_nodes_def HFSorter_init_def)
next
  case (Inr cs)
  let ?s = "\<lparr>node_list = py_sorted_reverse global_samples nl, cluster_list = cs,
             hf_k_caller_degrade_factor = k_min_prob args, hf_loglevel = loglevel args\<rparr>"
  have "HFSorter_sort (?s\<lparr>hf_k_caller_degrade_factor := k\<rparr>) = HFSorter_sort ?s"
    by (rule HFSorter_sort_ignores_override)
  with Inr show ?thesis
    by (simp add: sort_nodes_def HFSorter_init_def)
qed

section \<open>The graph builder only builds nodes of positive size from sizes that are not negative\<close>

text \<open>
  The builder drops a target whose size is 0 or \<open>None\<close>. When neither the size table
  nor the rows hold a negative size, as is the case for the ints the report parser
  makes of digit strings and for the table read from \<open>nm -S\<close>, every node it
  builds has a positive size.
\<close>

lemma collect_node_size:
  "collect_node node rows ta_sy tot = Inr node' \<Longrightarrow> size_bytes node' = size_bytes node"
proof (induction rows arbitrary: node)
  case Nil
  then show ?case by simp
next
  case (Cons el rows)
  have add: "add_samples n s t = Inr n1 \<Longrightarrow> size_bytes n1 = size_bytes n" for n s t n1
    by (auto simp: add_samples_def Let_def split: sum.splits)
  show ?case
  proof (cases "target_symbol el = ta_sy")
    case False
    with Cons show ?thesis by simp
  next
    case True
    with Cons.prems obtain n1 where n1: "add_samples node (samples el) tot = Inr n1"
      by (auto split: sum.splits)
    show ?thesis
    proof (cases "source_symbol el \<noteq> ta_sy")
      case False
      with True n1 Cons.prems have "collect_node n1 rows ta_sy tot = Inr node'"
        by simp
      from Cons.IH [OF this] add [OF n1] show ?thesis by simp
    next
      case src: True
      with True n1 Cons.prems obtain p
        where "collect_node (n1\<lparr>predecessors := predecessors n1 @ [p]\<rparr>) rows ta_sy tot = Inr node'"
        by (auto split: sum.splits)
      from Cons.IH [OF this] add [OF n1] show ?thesis by simp
    qed
  qed
qed

lemma get_symbol_size_nonneg:
  assumes "get_symbol_size element tbl ta_sy dbg = Inr (Some n, cnt)"
    and "nonneg_size (symbol_size element)"
    and "\<forall>t. tbl = Some t \<longrightarrow> (\<forall>v\<in>snd ` set t. 0 \<le> v)"
  shows "0 \<le> n"
proof -
  have tab: "0 \<le> v" if "tbl = Some t" "map_of t ta_sy = Some v" for t v
    using assms(3) that by (force dest: map_of_SomeD)
  from assms(1,2) show ?thesis
    by (cases dbg; cases tbl)
      (auto simp: get_symbol_size_def nonneg_size_def
        split: if_splits sum.splits option.splits dest: tab)
qed

lemma build_step_positive:
  assumes "build_step debug tbl tot vals b element = Inr b'"
    and "\<forall>n\<in>set (built_nodes b). 0 < size_bytes n"
    and "nonneg_size (symbol_size element)"
    and "\<forall>t. tbl = Some t \<longrightarrow> (\<forall>v\<in>snd ` set t. 0 \<le> v)"
  shows "\<forall>n\<in>set (built_nodes b'). 0 < size_bytes n"
proof (cases "target_symbol element \<in> set (examined_nodes b) \<or> is_hex (target_symbol element)")
  case True
  with assms(1,2) show ?thesis
    by (auto simp: build_step_def Let_def split: if_splits)
next
  case False
  with assms(1) obtain sz cnt
    where sz: "get_symbol_size element tbl (target_symbol element)
                 (not_found_size_symbols b, debug) = Inr (sz, cnt)"
    by (auto simp: build_step_def Let_def split: sum.splits)
  show ?thesis
  proof (cases "sz = Some 0 \<or> sz = None")
    case True
    with False sz assms(1,2) show ?thesis
      by (auto simp: build_step_def Let_def split: sum.splits if_splits)
  next
    case nz: False
    then obtain n where n: "sz = Some n" "n \<noteq> 0" by auto
    from get_symbol_size_nonneg [OF sz [unfolded n(1)] assms(3,4)] n(2) have pos: "0 < n"
      by simp
    from False sz n assms(1) obtain node
      where node: "create_new_node vals n (target_symbol element) tot = Inr node"
        and b': "built_nodes b' = built_nodes b @ [node]"
      by (auto simp: build_step_def Let_def split: sum.splits)
    from node have "size_bytes node = n"
      by (auto simp: create_new_node_def dest: collect_node_size)
    with pos b' assms(2) show ?thesis by auto
  qed
qed

lemma build_loop_positive:
  assumes "build_loop debug tbl tot vals b rows = Inr b'"
    and "\<forall>n\<in>set (built_nodes b). 0 < size_bytes n"
    and "\<forall>r\<in>set rows. nonneg_size (symbol_size r)"
    and "\<forall>t. tbl = Some t \<longrightarrow> (\<forall>v\<in>snd ` set t. 0 \<le> v)"
  shows "\<forall>n\<in>set (built_nodes b'). 0 < size_bytes n"
  using assms(1-3)
proof (induction rows arbitrary: b)
  case Nil
  then show ?case by simp
next
  case (Cons r rows)
  from Cons.prems(1) obtain b1 where step: "build_step debug tbl tot vals b r = Inr b1"
    and rest: "build_loop debug tbl tot vals b1 rows = Inr b'"
    by (auto split: sum.splits)
  from Cons.prems(3) have "nonneg_size (symbol_size r)" by simp
  from build_step_positive [OF step Cons.prems(2) this assms(4)]
  have "\<forall>n\<in>set (built_nodes b1). 0 < size_bytes n" .
  from Cons.IH [OF rest this] Cons.prems(3) show ?case by simp
qed

lemma built_nodes_positive_size:
  assumes "parse_and_combine_information lvl tbl tot vals = Inr nl"
    and "\<forall>r\<in>set vals. nonneg_size (symbol_size r)"
    and "\<forall>t. tbl = Some t \<longrightarrow> (\<forall>v\<in>snd ` set t. 0 \<le> v)"
  shows "\<forall>n\<in>set nl. 0 < size_bytes n"
proof -
  let ?b0 = "\<lparr>built_nodes = [], examined_nodes = [], not_found_size_symbols = Some 0,
              correct_symbols = 0, hex_symbols = 0\<rparr>"
  from assms(1) obtain b
    where loop: "build_loop (lvl = Some logging_DEBUG) tbl tot vals ?b0 vals = Inr b"
      and nl: "nl = built_nodes b"
    by (auto simp: parse_and_combine_information_def split: sum.splits if_splits option.splits)
  have "\<forall>n\<in>set (built_nodes ?b0). 0 < size_bytes n" by simp
  from build_loop_positive [OF loop this assms(2,3)] nl show ?thesis by simp
qed

section \<open>The claims\<close>

text \<open>
  C1. For two clusters whose stored sizes are the sums over their nodes and do not add
  up to zero, \<open>check_cluster_merge\<close> returns, and the flag it returns (\<open>True\<close> for
  rejected) is exactly the truth value of: the sizes add up to more than the page size,
  or the density of the source is greater than the candidate density (the summed times
  divided by the summed sizes, as Python divides them) times the degrade factor of the
  source (as Python multiplies them). When it rejects
  the source keeps its nodes, otherwise the nodes of the target are appended to them.
  (With sizes that add up to zero, and a page size that is not negative, the division
  raises.)
\<close>

theorem check_cluster_merge_admission:
  assumes "total_size source = sum_list (map size_bytes (nodes source))"
    and "total_size target = sum_list (map size_bytes (nodes target))"
    and "total_size source + total_size target \<noteq> 0"
  shows "\<exists>candidate_density self'.
           py_truediv (total_time source + total_time target)
             (total_size source + total_size target) = Inr candidate_density \<and>
           check_cluster_merge source target =
             Inr (total_size source + total_size target > page_size source \<or>
                  density source > py_mul candidate_density (k_caller_degrade_factor source),
                  self') \<and>
           nodes self' =
             (if total_size source + total_size target > page_size source \<or>
                 density source > py_mul candidate_density (k_caller_degrade_factor source)
              then nodes source else nodes source @ nodes target)"
  using assms
  by (auto simp: check_cluster_merge_def update_density_eq py_truediv_def)

theorem check_cluster_merge_admission_witness:
  "\<exists>self'. check_cluster_merge (cluster_B 4096 40) (cluster_A 4096) = Inr (False, self') \<and>
           nodes self' = [node_B 40, node_A]"
  using check_cluster_merge_admission [of "cluster_B 4096 40" "cluster_A 4096"]
  by (simp add: scenario_A_defs py_truediv_def float_values)

text \<open>
  C2. On scenario A, with any weight of the arc from \<open>A\<close> to \<open>B\<close> that reaches
  the minimum arc probability, \<open>sort\<close> merges \<open>A\<close> and \<open>B\<close> into one cluster and
  leaves \<open>C\<close> alone, but the merged cluster is the cluster of \<open>B\<close> with the node of
  its caller \<open>A\<close> appended: its order is \<open>[B, A]\<close> and the names come out as
  \<open>B, A, C\<close>.
\<close>

theorem scenario_A_order:
  assumes "K_MIN_ARC_PROBABILITY \<le> w"
  shows "\<exists>self self' index.
           HFSorter_init scenario_A_args (scenario_A_nodes w) = Inr self \<and>
           sort_loop (self, 0) (py_sorted_reverse global_samples (node_list self)) =
             Inr (self', index) \<and>
           map (\<lambda>c. map function_name (nodes c)) (cluster_list self') =
             [[''B'', ''A''], [''C'']] \<and>
           sort_nodes scenario_A_args (scenario_A_nodes w) = Inr [''B'', ''A'', ''C'']"
  using assms by (simp add: scenario_A_defs cluster_simps sorter_simps)

theorem scenario_A_order_witness:
  "K_MIN_ARC_PROBABILITY \<le> 42 \<and>
   sort_nodes scenario_A_args (scenario_A_nodes 42) = Inr [''B'', ''A'', ''C'']"
proof -
  have w: "K_MIN_ARC_PROBABILITY \<le> 42"
    by (simp add: K_MIN_ARC_PROBABILITY_def float_values)
  from scenario_A_order [OF w] w show ?thesis
    by blast
qed

text \<open>
  C2, as the specification states it, fails: with the arc weight 40 (80 of 200
  samples) the output is \<open>B, A, C\<close> and not \<open>A, B, C\<close>.
\<close>

theorem scenario_A_counterexample:
  "sort_nodes scenario_A_args (scenario_A_nodes 40) = Inr [''B'', ''A'', ''C''] \<and>
   sort_nodes scenario_A_args (scenario_A_nodes 40) \<noteq> Inr [''A'', ''B'', ''C'']"
  by (simp add: scenario_A_defs cluster_simps sorter_simps)

text \<open>
  C3. With \<open>--min-probability 0.5\<close> the sorter holds 0.5 in its own attribute, and
  both clusters still carry the factor 8. The density 1 of the cluster of \<open>X\<close> is
  greater than the candidate density \<open>150 / 125\<close> times 0.5, so a test that used the
  override would reject (as the same cluster with the factor 0.5 does); the test that
  runs accepts, and the output is \<open>X, Y\<close>, where two separate clusters would be
  written \<open>Y, X\<close>.
\<close>

theorem min_prob_override_unused:
  "HFSorter_init override_args [node_X, node_Y] =
     Inr \<lparr>node_list = [node_X, node_Y], cluster_list = [cluster_X, cluster_Y],
          hf_k_caller_degrade_factor = Some (1 / 2), hf_loglevel = None\<rparr> \<and>
   k_caller_degrade_factor cluster_X = 8 \<and>
   py_truediv (total_time cluster_X + total_time cluster_Y)
     (total_size cluster_X + total_size cluster_Y) = Inr (binary64 (6 / 5)) \<and>
   density cluster_X > py_mul (binary64 (6 / 5)) (1 / 2) \<and>
   check_cluster_merge (cluster_X\<lparr>k_caller_degrade_factor := 1 / 2\<rparr>) cluster_Y =
     Inr (True, cluster_X\<lparr>k_caller_degrade_factor := 1 / 2\<rparr>) \<and>
   map_sum id fst (check_cluster_merge cluster_X cluster_Y) = Inr False \<and>
   sort_nodes override_args [node_X, node_Y] = Inr [''X'', ''Y'']"
  by (simp add: scenario_defs cluster_simps sorter_simps)

text \<open>
  C4. With the debug log level off: whenever \<open>sort\<close> returns names, they are a
  permutation of the function names of the input nodes (and are distinct when those
  are); and \<open>sort\<close> does return names when every node has a positive size and,
  at log level INFO, there is at least one node (the statistics it prints then divide
  by the number of nodes).
\<close>

theorem sort_conservation:
  assumes "loglevel args \<noteq> Some logging_DEBUG"
  shows "(\<forall>names. sort_nodes args nl = Inr names \<longrightarrow>
            mset names = mset (map function_name nl) \<and>
            (distinct (map function_name nl) \<longrightarrow> distinct names)) \<and>
         ((\<forall>n\<in>set nl. 0 < size_bytes n) \<and> (nl \<noteq> [] \<or> loglevel args \<noteq> Some logging_INFO) \<longrightarrow>
            (\<exists>names. sort_nodes args nl = Inr names))"
proof (intro conjI allI impI)
  fix names
  assume run: "sort_nodes args nl = Inr names"
  then obtain self where init: "HFSorter_init args nl = Inr self"
    and sort: "HFSorter_sort self = Inr names"
    by (auto simp: sort_nodes_def split: sum.splits)
  from HFSorter_sort_Inr [OF sort] obtain self' index
    where loop: "sort_loop (self, 0) (py_sorted_reverse global_samples (node_list self)) =
                   Inr (self', index)"
      and names: "names = sort_functions_in_clusters self'"
    by blast
  from sort_loop_mset [OF loop] HFSorter_init_Inr(1,3) [OF init] assms
  have "mset (clustered_nodes self') = mset nl" "hf_loglevel self' \<noteq> Some logging_DEBUG"
    by simp_all
  with names show perm: "mset names = mset (map function_name nl)"
    by (simp add: mset_sort_functions_in_clusters)
  assume "distinct (map function_name nl)"
  with mset_eq_imp_distinct_iff [OF perm] show "distinct names"
    by blast
next
  assume wf: "(\<forall>n\<in>set nl. 0 < size_bytes n) \<and> (nl \<noteq> [] \<or> loglevel args \<noteq> Some logging_INFO)"
  then have sizes: "\<forall>n\<in>set nl. 0 < size_bytes n" by simp
  from HFSorter_init_total [OF sizes] obtain self where init: "HFSorter_init args nl = Inr self"
    and inv: "\<forall>c\<in>set (cluster_list self). totals_consistent c \<and> well_sized c"
    by blast
  have nodes: "set (node_list self) \<subseteq> set (clustered_nodes self)"
    using HFSorter_init_Inr(1,2) [OF init] by simp
  then have "set (py_sorted_reverse global_samples (node_list self)) \<subseteq> set (clustered_nodes self)"
    by simp
  from sort_loop_total [OF inv nodes this] obtain self' index
    where loop: "sort_loop (self, 0) (py_sorted_reverse global_samples (node_list self)) =
                   Inr (self', index)"
    by fastforce
  from sort_loop_mset [OF loop] HFSorter_init_Inr(2,3) [OF init]
  have "length (node_list self') = length nl" "hf_loglevel self' = loglevel args"
    by simp_all
  with wf assms loop have "\<exists>names. HFSorter_sort self = Inr names"
    by (auto simp: HFSorter_sort_def py_truediv_def)
  with init show "\<exists>names. sort_nodes args nl = Inr names"
    by (simp add: sort_nodes_def)
qed

theorem sort_conservation_witness:
  "\<exists>names. sort_nodes scenario_A_args (scenario_A_nodes 40) = Inr names \<and>
           mset names = mset [''A'', ''B'', ''C''] \<and> distinct names"
proof -
  have "loglevel scenario_A_args \<noteq> Some logging_DEBUG"
    by (simp add: scenario_A_args_def)
  note cons = sort_conservation [OF this, of "scenario_A_nodes 40"]
  have sizes: "\<forall>n\<in>set (scenario_A_nodes 40). 0 < size_bytes n"
    by (simp add: scenario_A_defs)
  have names: "map function_name (scenario_A_nodes 40) = [''A'', ''B'', ''C'']"
    by (simp add: scenario_A_defs)
  from cons sizes obtain names where run: "sort_nodes scenario_A_args (scenario_A_nodes 40) = Inr names"
    by (auto simp: scenario_A_nodes_def)
  with cons have "mset names = mset (map function_name (scenario_A_nodes 40))"
    "distinct (map function_name (scenario_A_nodes 40)) \<longrightarrow> distinct names"
    by blast+
  with run show ?thesis
    unfolding names by auto
qed

text \<open>
  C5. In every state that a run of \<open>sort\<close> passes through (the state after any
  number \<open>k\<close> of processed nodes), a cluster whose total size exceeds its page size
  is one of the clusters the sorter started with, a single node that has never taken
  part in an accepted merge.
\<close>

theorem merge_never_exceeds_page_size:
  assumes init: "HFSorter_init args nl = Inr self"
    and loop: "sort_loop (self, 0) (take k (py_sorted_reverse global_samples (node_list self))) =
                 Inr (self', index)"
    and c: "c \<in> set (cluster_list self')"
    and big: "total_size c > page_size c"
  shows "c \<in> set (cluster_list self) \<and> (\<exists>n\<in>set nl. nodes c = [n])"
proof -
  let ?P = "\<lambda>c. totals_consistent c \<and> (c \<in> set (cluster_list self) \<or> total_size c \<le> page_size c)"
  have start: "\<forall>c\<in>set (cluster_list self). ?P c"
    using HFSorter_init_Inr(4) [OF init] by simp
  have "\<forall>c\<in>set (cluster_list self'). ?P c"
  proof (rule sort_loop_clusters [OF loop start])
    fix a b m
    assume a: "?P a" and b: "?P b" and m: "check_cluster_merge a b = Inr (False, m)"
    from check_cluster_merge_accept [OF m] a b
    have "totals_consistent m" "total_size m = total_size a + total_size b"
      "total_size a + total_size b \<le> page_size m"
      by (simp_all add: totals_consistent_def)
    then show "?P m" by simp
  qed
  with c big have "c \<in> set (cluster_list self)" by auto
  with HFSorter_init_Inr(4) [OF init] show ?thesis by simp
qed

theorem merge_never_exceeds_page_size_witness:
  "cluster_C 100 \<in> set (cluster_list (scenario_A_sorter 40 [cluster_BA 100 40, cluster_C 100])) \<and>
   total_size (cluster_C 100) > page_size (cluster_C 100) \<and>
   cluster_C 100 \<in>
     set (cluster_list (scenario_A_sorter 40 [cluster_A 100, cluster_B 100 40, cluster_C 100])) \<and>
   nodes (cluster_C 100) = [node_C]"
proof -
  let ?s0 = "scenario_A_sorter 40 [cluster_A 100, cluster_B 100 40, cluster_C 100]"
  let ?s1 = "scenario_A_sorter 40 [cluster_BA 100 40, cluster_C 100]"
  have init: "HFSorter_init (scenario_A_args\<lparr>pagesize := 100\<rparr>) (scenario_A_nodes 40) = Inr ?s0"
    by (rule scenario_A_init)
  have "sort_loop (?s0, 0) [node_A, node_B 40, node_C] = Inr (?s1, 2)"
    by (rule scenario_A_loop) (simp_all add: K_MIN_ARC_PROBABILITY_def float_values)
  then have loop: "sort_loop (?s0, 0) (take 3 (py_sorted_reverse global_samples (node_list ?s0))) =
                     Inr (?s1, 2)"
    by (simp add: py_sorted_reverse_def scenario_A_sorter_def node_A_def node_B_def node_C_def)
  have c: "cluster_C 100 \<in> set (cluster_list ?s1)"
    by (simp add: scenario_A_sorter_def)
  have big: "total_size (cluster_C 100) > page_size (cluster_C 100)"
    by (simp add: cluster_C_def)
  from merge_never_exceeds_page_size [OF init loop c big] c big show ?thesis
    by (simp add: scenario_A_nodes_def cluster_C_def)
qed

text \<open>
  C6. When \<open>check_cluster_merge\<close> rejects, the source cluster it hands back is the
  one it was given, and \<open>_merge_clusters\<close> returns the sorter unchanged: the same
  cluster list with the same clusters, source and target included.
\<close>

theorem rejected_merge_changes_nothing:
  assumes "source_index < length (cluster_list self)"
    and "target_index < length (cluster_list self)"
    and "check_cluster_merge (cluster_list self ! source_index)
           (cluster_list self ! target_index) = Inr (True, c')"
  shows "c' = cluster_list self ! source_index \<and>
         merge_clusters self source_index target_index = Inr self"
  using assms check_cluster_merge_reject [OF assms(3)]
  by (simp add: merge_clusters_def Let_def)

theorem rejected_merge_changes_nothing_witness:
  "check_cluster_merge cluster_D2 cluster_D1 = Inr (True, cluster_D2) \<and>
   merge_clusters scenario_D_sorter 1 0 = Inr scenario_D_sorter"
proof -
  have len: "1 < length (cluster_list scenario_D_sorter)" "0 < length (cluster_list scenario_D_sorter)"
    by (simp_all add: scenario_D_sorter_def)
  have rej: "check_cluster_merge (cluster_list scenario_D_sorter ! 1)
               (cluster_list scenario_D_sorter ! 0) = Inr (True, cluster_D2)"
    by (simp add: scenario_defs cluster_simps)
  from rejected_merge_changes_nothing [OF len rej] rej show ?thesis
    by (simp add: scenario_D_sorter_def)
qed

text \<open>
  C7. Without a size table, \<open>get_symbol_size\<close> calls \<open>int\<close> on the missing
  \<open>symbol_size\<close> of the row: \<open>int(None)\<close> raises \<open>TypeError\<close>, which nothing
  catches, so the graph builder does not return. With a size table that lacks the
  symbol, the same row gives \<open>(None, None)\<close> and the target is left out.
\<close>

theorem missing_size_without_table_raises:
  "\<not> is_hex (target_symbol missing_size_row) \<and>
   get_symbol_size missing_size_row None ''foo'' (Some 0, False) = Inl TypeError \<and>
   parse_and_combine_information None None 20 [missing_size_row] = Inl TypeError \<and>
   get_symbol_size missing_size_row (Some [(''bar'', 4)]) ''foo'' (Some 0, False) =
     Inr (None, None) \<and>
   parse_and_combine_information None (Some [(''bar'', 4)]) 20 [missing_size_row] = Inr []"
  by (simp add: scenario_defs builder_simps)

text \<open>
  C8. A node without predecessors, or all of whose predecessors with the maximal
  \<open>samples_to_target\<close> have a \<open>weight_to_target\<close> below
  \<open>K_MIN_ARC_PROBABILITY\<close>, which is the float \<open>0.1\<close>, has no most likely
  predecessor: the step of the loop leaves the sorter as it is, clusters included, and
  adds one to the count. (The witness node has a caller of greater weight but fewer
  samples, which is not chosen.)
\<close>

theorem no_usable_predecessor_skips:
  assumes "predecessors node = [] \<or>
           (\<forall>p\<in>set (predecessors node).
              (\<forall>q\<in>set (predecessors node). samples_to_target q \<le> samples_to_target p) \<longrightarrow>
              weight_to_target p < K_MIN_ARC_PROBABILITY)"
  shows "K_MIN_ARC_PROBABILITY = binary64 (1 / 10) \<and>
         get_most_likely_predecessor self node = None \<and>
         sort_step (self, index) node = Inr (self, index + 1) \<and>
         sort_loop (self, index) (node # rest) = sort_loop (self, index + 1) rest"
proof -
  have none: "get_most_likely_predecessor self node = None"
  proof (cases "get_biggest_predecessor node")
    case None
    then show ?thesis by (simp add: get_most_likely_predecessor_def)
  next
    case (Some p)
    then have "predecessors node \<noteq> []"
      by (auto simp: get_biggest_predecessor_def)
    with assms get_biggest_predecessor_max [OF Some]
    have "weight_to_target p < K_MIN_ARC_PROBABILITY"
      by blast
    with Some show ?thesis by (simp add: get_most_likely_predecessor_def)
  qed
  then show ?thesis
    by (simp add: sort_step_def K_MIN_ARC_PROBABILITY_def)
qed

theorem no_usable_predecessor_skips_witness:
  "find (\<lambda>n. function_name n = ''D1'') (node_list scenario_D_sorter) = Some node_D1 \<and>
   map samples_to_target (predecessors node_T) = [10, 20] \<and>
   map weight_to_target (predecessors node_T) = [50, 1 / 16] \<and>
   get_most_likely_predecessor scenario_D_sorter node_T = None \<and>
   sort_step (scenario_D_sorter, 0) node_T = Inr (scenario_D_sorter, 1) \<and>
   sort_loop (scenario_D_sorter, 0) [node_T] = Inr (scenario_D_sorter, 1)"
proof -
  have "predecessors node_T = [] \<or>
        (\<forall>p\<in>set (predecessors node_T).
           (\<forall>q\<in>set (predecessors node_T). samples_to_target q \<le> samples_to_target p) \<longrightarrow>
           weight_to_target p < K_MIN_ARC_PROBABILITY)"
    by (simp add: node_T_def K_MIN_ARC_PROBABILITY_def float_values)
  from no_usable_predecessor_skips [OF this, of scenario_D_sorter 0 "[]"] show ?thesis
    by (simp add: node_T_def scenario_D_sorter_def node_D1_def node_D2_def)
qed

text \<open>
  C9. When \<open>sort\<close>, after any number of processed nodes, comes to a node that has a
  most likely predecessor, and this node, or else that predecessor, is in no cluster of
  the sorter, then \<open>sort\<close> ends there, whatever nodes remain, with \<open>SystemExit\<close>
  and the message that names the function that was not found. A node without a most
  likely predecessor is skipped before any cluster is looked up.
\<close>

theorem missing_cluster_is_fatal:
  assumes order: "py_sorted_reverse global_samples (node_list self) = processed @ node # rest"
    and reached: "sort_loop (self, 0) processed = Inr (self', index)"
    and pred: "get_most_likely_predecessor self' node = Some predecessor_node"
    and absent: "\<not> in_some_cluster self' node \<or> \<not> in_some_cluster self' predecessor_node"
  shows "HFSorter_sort self =
           Inl (SystemExit (''ERROR Cluster index for node '' @
                  function_name (if in_some_cluster self' node then predecessor_node else node) @
                  '' could not be found''))"
proof -
  from sort_step_missing_cluster [OF pred absent]
  have "sort_loop (self', index) (node # rest) =
           Inl (SystemExit (''ERROR Cluster index for node '' @
                  function_name (if in_some_cluster self' node then predecessor_node else node) @
                  '' could not be found''))"
    by simp
  with reached
  have "sort_loop (self, 0) (processed @ node # rest) =
           Inl (SystemExit (''ERROR Cluster index for node '' @
                  function_name (if in_some_cluster self' node then predecessor_node else node) @
                  '' could not be found''))"
    by (simp add: sort_loop_append)
  with order show ?thesis
    by (simp add: HFSorter_sort_def)
qed

theorem missing_cluster_is_fatal_witness:
  "sort_loop (scenario_A_sorter 40 [cluster_A 4096, cluster_C 4096], 0) [node_A] =
     Inr (scenario_A_sorter 40 [cluster_A 4096, cluster_C 4096], 1) \<and>
   get_most_likely_predecessor (scenario_A_sorter 40 [cluster_A 4096, cluster_C 4096]) (node_B 40) =
     Some node_A \<and>
   \<not> in_some_cluster (scenario_A_sorter 40 [cluster_A 4096, cluster_C 4096]) (node_B 40) \<and>
   HFSorter_sort (scenario_A_sorter 40 [cluster_A 4096, cluster_C 4096]) =
     Inl (SystemExit ''ERROR Cluster index for node B could not be found'')"
proof -
  let ?s = "scenario_A_sorter 40 [cluster_A 4096, cluster_C 4096]"
  have order: "py_sorted_reverse global_samples (node_list ?s) = [node_A] @ node_B 40 # [node_C]"
    by (simp add: py_sorted_reverse_def scenario_A_sorter_def node_A_def node_B_def node_C_def)
  have reached: "sort_loop (?s, 0) [node_A] = Inr (?s, 1)"
    by (simp add: scenario_A_defs sorter_simps)
  have pred: "get_most_likely_predecessor ?s (node_B 40) = Some node_A"
    by (simp add: scenario_A_defs sorter_simps float_values)
  have absent: "\<not> in_some_cluster ?s (node_B 40)"
    by (simp add: in_some_cluster_def scenario_A_defs node_eq_def)
  then have "\<not> in_some_cluster ?s (node_B 40) \<or> \<not> in_some_cluster ?s node_A"
    by simp
  from missing_cluster_is_fatal [OF order reached pred this] reached pred absent show ?thesis
    by (simp add: node_B_def)
qed

text \<open>
  C9, as the specification states it, fails for a node that has no most likely
  predecessor: with the clusters of \<open>B\<close> and \<open>C\<close> gone from the list, and the weight
  of the arc to \<open>B\<close> below the minimum, \<open>sort\<close> skips both nodes and returns.
\<close>

theorem absent_node_is_skipped_counterexample:
  "\<not> in_some_cluster (scenario_A_sorter (1 / 16) [cluster_A 4096]) (node_B (1 / 16)) \<and>
   \<not> in_some_cluster (scenario_A_sorter (1 / 16) [cluster_A 4096]) node_C \<and>
   HFSorter_sort (scenario_A_sorter (1 / 16) [cluster_A 4096]) = Inr [''A'']"
  by (simp add: in_some_cluster_def scenario_A_defs node_eq_def cluster_simps sorter_simps)

text \<open>
  C10. When no size in the size table is negative and no row carries a size that
  \<open>int\<close> makes negative, every node the graph builder returns has a positive size,
  the sorter is built from them, and after any number \<open>k\<close> of processed nodes the
  loop has returned a state in which every cluster has a positive total size, so that
  recomputing its density does not raise.
\<close>

theorem built_clusters_total_size_positive:
  assumes built: "parse_and_combine_information lvl tbl total_samples vals = Inr nl"
    and rows: "\<forall>r\<in>set vals. nonneg_size (symbol_size r)"
    and table: "\<forall>t. tbl = Some t \<longrightarrow> (\<forall>v\<in>snd ` set t. 0 \<le> v)"
  shows "(\<forall>n\<in>set nl. 0 < size_bytes n) \<and>
         (\<exists>self. HFSorter_init args nl = Inr self \<and>
            (\<forall>k. \<exists>self' index.
               sort_loop (self, 0) (take k (py_sorted_reverse global_samples (node_list self))) =
                 Inr (self', index) \<and>
               (\<forall>c\<in>set (cluster_list self').
                  0 < total_size c \<and> (\<exists>c'. update_density c = Inr c'))))"
proof -
  from built rows table have "\<forall>n\<in>set nl. 0 < size_bytes n"
    by (rule built_nodes_positive_size)
  with positive_sizes_stay_positive [OF this, of args] show ?thesis
    by blast
qed

theorem built_clusters_total_size_positive_witness:
  "parse_and_combine_information None None 20 positive_size_rows = Inr [node_fh, node_h] \<and>
   list_all (\<lambda>n. 0 < size_bytes n) [node_fh, node_h] \<and>
   (\<exists>self. HFSorter_init scenario_A_args [node_fh, node_h] = Inr self \<and>
      (\<forall>k. \<exists>self' index.
         sort_loop (self, 0) (take k (py_sorted_reverse global_samples (node_list self))) =
           Inr (self', index) \<and>
         (\<forall>c\<in>set (cluster_list self').
            0 < total_size c \<and> (\<exists>c'. update_density c = Inr c'))))"
proof -
  have built: "parse_and_combine_information None None 20 positive_size_rows =
                 Inr [node_fh, node_h]"
    by (simp add: scenario_defs builder_simps py_truediv_def float_values)
  have rows: "\<forall>r\<in>set positive_size_rows. nonneg_size (symbol_size r)"
    by (simp add: positive_size_rows_def nonneg_size_def py_int_def)
  have table: "\<forall>t. (None :: (string \<times> int) list option) = Some t \<longrightarrow> (\<forall>v\<in>snd ` set t. 0 \<le> v)"
    by simp
  from built_clusters_total_size_positive [OF built rows table, of scenario_A_args] built
  show ?thesis
    by simp
qed

text \<open>
  C10, as the specification states it, fails: the builder drops a size of 0 or
  \<open>None\<close> only, so the rows with the sizes \<open>5\<close> and \<open>-5\<close> give two nodes, the
  second cluster has the total size \<open>-5\<close>, and merging the two divides by zero.
\<close>

theorem negative_size_counterexample:
  "parse_and_combine_information None None 20 negative_size_rows = Inr [node_f, node_g] \<and>
   map_sum id (\<lambda>self. map total_size (cluster_list self))
     (HFSorter_init scenario_A_args [node_f, node_g]) = Inr [5, - 5] \<and>
   sort_nodes scenario_A_args [node_f, node_g] = Inl ZeroDivisionError"
  by (simp add: scenario_defs scenario_A_args_def builder_simps cluster_simps sorter_simps)

end
